theory Spec2Isabelle
  imports Main "HOL-Library.Word" "HOL-Library.AList"
begin

section \<open>Values of the wrapped libraries\<close>

text \<open>
  The provider is written against two libraries that are not part of the repository:
  the Terraform plugin framework (attribute values \<open>types.String\<close>, \<open>types.Int64\<close>,
  \<open>types.Bool\<close>, diagnostics, validators) and the NATS client (\<open>nats.StreamConfig\<close>,
  the policy enumerations, \<open>nats.Connect\<close>). Their types are modelled here as far as the
  provider's code touches them.

  Go's \<open>int64\<close> and \<open>time.Duration\<close> are 64-bit words, \<open>int32\<close> is a 32-bit word, all
  read as two's complement. Go's \<open>int\<close> is taken as 64 bits wide, as on the amd64 and
  arm64 targets.
\<close>

type_synonym int64 = "64 word"
type_synonym int32 = "32 word"
type_synonym go_int = "64 word"

subsection \<open>Terraform attribute values\<close>

text \<open>
  A framework value is null, unknown or known. \<open>ValueString\<close>, \<open>ValueInt64\<close> and
  \<open>ValueBool\<close> return the known value and the Go zero value otherwise.
\<close>

datatype tf_String = StringNull | StringUnknown | StringValue string
datatype tf_Int64 = Int64Null | Int64Unknown | Int64Value int64
datatype tf_Bool = BoolNull | BoolUnknown | BoolValue bool

fun ValueString :: "tf_String \<Rightarrow> string" where
  "ValueString (StringValue s) = s"
| "ValueString _ = []"

fun ValueInt64 :: "tf_Int64 \<Rightarrow> int64" where
  "ValueInt64 (Int64Value v) = v"
| "ValueInt64 _ = 0"

fun ValueBool :: "tf_Bool \<Rightarrow> bool" where
  "ValueBool (BoolValue b) = b"
| "ValueBool _ = False"

subsection \<open>The NATS enumerations\<close>

text \<open>
  Modelled from the spec: the enumerations of the NATS client library, which is not under
  src/. Each is a Go integer type whose constants are numbered from 0 in the order of
  their declaration, so the Go zero value of the type is its first constant:
  \<open>FileStorage\<close>, \<open>DiscardOld\<close>, \<open>LimitsPolicy\<close>, \<open>AckNonePolicy\<close>, \<open>DeliverAllPolicy\<close>.
\<close>

datatype StorageType = StorageType int
datatype DiscardPolicy = DiscardPolicy int
datatype RetentionPolicy = RetentionPolicy int
datatype AckPolicy = AckPolicy int
datatype DeliverPolicy = DeliverPolicy int

definition FileStorage :: StorageType where "FileStorage = StorageType 0"
definition MemoryStorage :: StorageType where "MemoryStorage = StorageType 1"

definition DiscardOld :: DiscardPolicy where "DiscardOld = DiscardPolicy 0"
definition DiscardNew :: DiscardPolicy where "DiscardNew = DiscardPolicy 1"

definition LimitsPolicy :: RetentionPolicy where "LimitsPolicy = RetentionPolicy 0"
definition InterestPolicy :: RetentionPolicy where "InterestPolicy = RetentionPolicy 1"
definition WorkQueuePolicy :: RetentionPolicy where "WorkQueuePolicy = RetentionPolicy 2"

definition AckNonePolicy :: AckPolicy where "AckNonePolicy = AckPolicy 0"
definition AckAllPolicy :: AckPolicy where "AckAllPolicy = AckPolicy 1"
definition AckExplicitPolicy :: AckPolicy where "AckExplicitPolicy = AckPolicy 2"

definition DeliverAllPolicy :: DeliverPolicy where "DeliverAllPolicy = DeliverPolicy 0"
definition DeliverLastPolicy :: DeliverPolicy where "DeliverLastPolicy = DeliverPolicy 1"
definition DeliverNewPolicy :: DeliverPolicy where "DeliverNewPolicy = DeliverPolicy 2"

section \<open>Package nats: the string-enum mappings\<close>

subsection \<open>utils.go\<close>

text \<open>
  A Go map literal is an association list with distinct keys, looked up with \<open>map_of\<close>.
  \<open>invertMap\<close> ranges over its argument and stores \<open>out[v] = k\<close> for each entry;
  \<open>mapFn\<close> turns a map into a function, and indexing a Go map at a missing key yields the
  zero value of the value type, here the parameter \<open>zero\<close>.
\<close>

definition invertMap :: "('a \<times> 'b) list \<Rightarrow> ('b \<rightharpoonup> 'a)" where
  "invertMap inp = fold (\<lambda>(k, v) out. out(v \<mapsto> k)) inp Map.empty"

definition mapFn :: "'b \<Rightarrow> ('a \<rightharpoonup> 'b) \<Rightarrow> 'a \<Rightarrow> 'b" where
  "mapFn zero m a = (case m a of Some b \<Rightarrow> b | None \<Rightarrow> zero)"

subsection \<open>types.go: the five mappings\<close>

definition storageType :: "(string \<times> StorageType) list" where
  "storageType = [(''file'', FileStorage), (''memory'', MemoryStorage)]"

definition invertedStorageType :: "StorageType \<rightharpoonup> string" where
  "invertedStorageType = invertMap storageType"

definition ToStorageType :: "string \<Rightarrow> StorageType" where
  "ToStorageType = mapFn (StorageType 0) (map_of storageType)"

definition FromStorageType :: "StorageType \<Rightarrow> string" where
  "FromStorageType = mapFn [] invertedStorageType"

definition discardPolicy :: "(string \<times> DiscardPolicy) list" where
  "discardPolicy = [(''old'', DiscardOld), (''new'', DiscardNew)]"

definition invertedDiscardPolicy :: "DiscardPolicy \<rightharpoonup> string" where
  "invertedDiscardPolicy = invertMap discardPolicy"

definition ToDiscardPolicy :: "string \<Rightarrow> DiscardPolicy" where
  "ToDiscardPolicy = mapFn (DiscardPolicy 0) (map_of discardPolicy)"

definition FromDiscardPolicy :: "DiscardPolicy \<Rightarrow> string" where
  "FromDiscardPolicy = mapFn [] invertedDiscardPolicy"

definition retentionPolicy :: "(string \<times> RetentionPolicy) list" where
  "retentionPolicy =
     [(''limits'', LimitsPolicy), (''interest'', InterestPolicy), (''work'', WorkQueuePolicy)]"

definition invertedRetentionPolicy :: "RetentionPolicy \<rightharpoonup> string" where
  "invertedRetentionPolicy = invertMap retentionPolicy"

definition ToRetentionPolicy :: "string \<Rightarrow> RetentionPolicy" where
  "ToRetentionPolicy = mapFn (RetentionPolicy 0) (map_of retentionPolicy)"

definition FromRetentionPolicy :: "RetentionPolicy \<Rightarrow> string" where
  "FromRetentionPolicy = mapFn [] invertedRetentionPolicy"

definition ackPolicy :: "(string \<times> AckPolicy) list" where
  "ackPolicy = [(''none'', AckNonePolicy), (''all'', AckAllPolicy), (''explicit'', AckExplicitPolicy)]"

definition invertedAckPolicy :: "AckPolicy \<rightharpoonup> string" where
  "invertedAckPolicy = invertMap ackPolicy"

definition ToAckPolicy :: "string \<Rightarrow> AckPolicy" where
  "ToAckPolicy = mapFn (AckPolicy 0) (map_of ackPolicy)"

definition FromAckPolicy :: "AckPolicy \<Rightarrow> string" where
  "FromAckPolicy = mapFn [] invertedAckPolicy"

definition deliverPolicy :: "(string \<times> DeliverPolicy) list" where
  "deliverPolicy =
     [(''all'', DeliverAllPolicy), (''new'', DeliverNewPolicy), (''last'', DeliverLastPolicy)]"

definition invertedDeliverPolicy :: "DeliverPolicy \<rightharpoonup> string" where
  "invertedDeliverPolicy = invertMap deliverPolicy"

definition ToDeliverPolicy :: "string \<Rightarrow> DeliverPolicy" where
  "ToDeliverPolicy = mapFn (DeliverPolicy 0) (map_of deliverPolicy)"

definition FromDeliverPolicy :: "DeliverPolicy \<Rightarrow> string" where
  "FromDeliverPolicy = mapFn [] invertedDeliverPolicy"

section \<open>Package nats: the client\<close>

subsection \<open>Configurations and infos\<close>

text \<open>
  \<open>StreamConfig\<close>, \<open>StreamInfo\<close>, \<open>ConsumerConfig\<close> and \<open>ConsumerInfo\<close> are the library's
  structs under the package's own names. The records hold the fields the repository reads
  or writes; every other field of the library's structs is never assigned and stays at
  its zero value. Field names carry a prefix (\<open>sc_\<close>, \<open>si_\<close>, \<open>cc_\<close>, \<open>ci_\<close>), since
  several structs have a field \<open>Name\<close>. A Go slice is a list; the nil slice and the empty
  slice, which the code never tells apart, are both \<open>[]\<close>.
\<close>

record StreamConfig =
  sc_Name :: string
  sc_Subjects :: "string list"
  sc_Storage :: StorageType
  sc_Replicas :: go_int
  sc_Retention :: RetentionPolicy
  sc_Discard :: DiscardPolicy
  sc_MaxMsgs :: int64
  sc_MaxConsumers :: go_int
  sc_MaxBytes :: int64
  sc_MaxMsgsPerSubject :: int64
  sc_MaxMsgSize :: int32
  sc_MaxAge :: int64
  sc_Duplicates :: int64
  sc_AllowDirect :: bool

record StreamInfo =
  si_Config :: StreamConfig

record ConsumerConfig =
  cc_Name :: string
  cc_Durable :: string
  cc_DeliverPolicy :: DeliverPolicy
  cc_AckPolicy :: AckPolicy
  cc_FilterSubjects :: "string list"
  cc_DeliverSubject :: string
  cc_DeliverGroup :: string

record ConsumerInfo =
  ci_Stream :: string
  ci_Name :: string
  ci_Config :: ConsumerConfig

text \<open>The composite literals \<open>StreamConfig{}\<close>, \<open>StreamInfo{}\<close>, \<open>ConsumerConfig{}\<close> and
  \<open>ConsumerInfo{}\<close>: every field at its zero value.\<close>

definition zero_StreamConfig :: StreamConfig where
  "zero_StreamConfig =
     \<lparr>sc_Name = [], sc_Subjects = [], sc_Storage = StorageType 0, sc_Replicas = 0,
      sc_Retention = RetentionPolicy 0, sc_Discard = DiscardPolicy 0, sc_MaxMsgs = 0,
      sc_MaxConsumers = 0, sc_MaxBytes = 0, sc_MaxMsgsPerSubject = 0, sc_MaxMsgSize = 0,
      sc_MaxAge = 0, sc_Duplicates = 0, sc_AllowDirect = False\<rparr>"

definition zero_StreamInfo :: StreamInfo where
  "zero_StreamInfo = \<lparr>si_Config = zero_StreamConfig\<rparr>"

definition zero_ConsumerConfig :: ConsumerConfig where
  "zero_ConsumerConfig =
     \<lparr>cc_Name = [], cc_Durable = [], cc_DeliverPolicy = DeliverPolicy 0,
      cc_AckPolicy = AckPolicy 0, cc_FilterSubjects = [], cc_DeliverSubject = [],
      cc_DeliverGroup = []\<rparr>"

definition zero_ConsumerInfo :: ConsumerInfo where
  "zero_ConsumerInfo = \<lparr>ci_Stream = [], ci_Name = [], ci_Config = zero_ConsumerConfig\<rparr>"

subsection \<open>Errors\<close>

text \<open>
  An error of the NATS library is one of its two not-found sentinels, some other error,
  or an error that wraps another one. \<open>errors.Is\<close> walks the chain of wrapped errors.
\<close>

datatype lib_error =
  ErrStreamNotFound
| ErrConsumerNotFound
| LibError string
| LibWrapped string lib_error

fun lib_errors_Is :: "lib_error \<Rightarrow> lib_error \<Rightarrow> bool" where
  "lib_errors_Is (LibWrapped msg e) target =
     (LibWrapped msg e = target \<or> lib_errors_Is e target)"
| "lib_errors_Is e target = (e = target)"

fun lib_Error :: "lib_error \<Rightarrow> string" where
  "lib_Error ErrStreamNotFound = ''nats: stream not found''"
| "lib_Error ErrConsumerNotFound = ''nats: consumer not found''"
| "lib_Error (LibError msg) = msg"
| "lib_Error (LibWrapped msg e) = msg @ '': '' @ lib_Error e"

text \<open>
  The errors the repository creates: the sentinel \<open>ErrNotFound\<close>, a library error wrapped
  by \<open>fmt.Errorf("...: %w", err)\<close>, and a plain \<open>fmt.Errorf\<close> message. No library error is
  or wraps \<open>ErrNotFound\<close>, so \<open>errors.Is(err, ErrNotFound)\<close> holds of the sentinel alone.
\<close>

datatype error =
  ErrNotFound
| Wrapf string lib_error
| Errorf string

fun errors_Is_ErrNotFound :: "error \<Rightarrow> bool" where
  "errors_Is_ErrNotFound ErrNotFound = True"
| "errors_Is_ErrNotFound (Wrapf msg e) = False"
| "errors_Is_ErrNotFound (Errorf msg) = False"

fun Error :: "error \<Rightarrow> string" where
  "Error ErrNotFound = ''not found''"
| "Error (Wrapf msg e) = msg @ '': '' @ lib_Error e"
| "Error (Errorf msg) = msg"

subsection \<open>The NATS library and server\<close>

text \<open>
  The library calls reach a server outside the program. Their outcomes are a parameter
  of the model: a record \<open>nats_lib\<close> that says, for the library calls of one method
  invocation, what each call returns for its arguments, and which JetStream API requests
  the library sends to the server in the course of a call of a JetStream context method
  (\<open>lib_messages\<close>). The \<open>world\<close> records every library call and every API request as an
  event and numbers the connections: \<open>nats.Connect\<close> hands out the next unused number
  when it succeeds. The JetStream context obtained from a connection is identified with
  it.

  A \<open>request\<close> names a call of a JetStream context method with its arguments. An
  \<open>api_request\<close> is one request message of the JetStream API, named by its subject:
  \<open>STREAM.INFO\<close>, \<open>STREAM.CREATE\<close>, \<open>STREAM.UPDATE\<close>, \<open>STREAM.DELETE\<close> with the stream,
  \<open>CONSUMER.INFO\<close>, \<open>CONSUMER.CREATE\<close>, \<open>CONSUMER.DELETE\<close> with the stream and the consumer.
\<close>

datatype request =
  ReqStreamInfo string
| ReqAddStream StreamConfig
| ReqUpdateStream StreamConfig
| ReqDeleteStream string
| ReqConsumerInfo string string
| ReqAddConsumer string ConsumerConfig
| ReqUpdateConsumer string ConsumerConfig
| ReqDeleteConsumer string string

datatype api_request =
  ApiStreamInfo string
| ApiStreamCreate string
| ApiStreamUpdate string
| ApiStreamDelete string
| ApiConsumerInfo string string
| ApiConsumerCreate string string
| ApiConsumerDelete string string

datatype event =
  EvConnect string "nat option"
| EvJetStream nat
| EvCall nat request
| EvMessage nat api_request
| EvClose nat

record world =
  next_conn :: nat
  events :: "event list"

record nats_lib =
  lib_Connect :: "string \<Rightarrow> lib_error option"
  lib_JetStream :: "lib_error option"
  lib_StreamInfo :: "string \<Rightarrow> lib_error + StreamInfo"
  lib_AddStream :: "StreamConfig \<Rightarrow> lib_error + StreamInfo"
  lib_UpdateStream :: "StreamConfig \<Rightarrow> lib_error + StreamInfo"
  lib_DeleteStream :: "string \<Rightarrow> lib_error option"
  lib_ConsumerInfo :: "string \<Rightarrow> string \<Rightarrow> lib_error + ConsumerInfo"
  lib_AddConsumer :: "string \<Rightarrow> ConsumerConfig \<Rightarrow> lib_error + ConsumerInfo"
  lib_UpdateConsumer :: "string \<Rightarrow> ConsumerConfig \<Rightarrow> lib_error + ConsumerInfo"
  lib_DeleteConsumer :: "string \<Rightarrow> string \<Rightarrow> lib_error option"
  lib_messages :: "request \<Rightarrow> api_request list"

definition log_event :: "event \<Rightarrow> world \<Rightarrow> world" where
  "log_event ev w = w\<lparr>events := events w @ [ev]\<rparr>"

definition nats_Connect :: "nats_lib \<Rightarrow> string \<Rightarrow> world \<Rightarrow> (lib_error + nat) \<times> world" where
  "nats_Connect L url w =
     (case lib_Connect L url of
        Some err \<Rightarrow> (Inl err, log_event (EvConnect url None) w)
      | None \<Rightarrow>
          (Inr (next_conn w),
           log_event (EvConnect url (Some (next_conn w))) (w\<lparr>next_conn := Suc (next_conn w)\<rparr>)))"

text \<open>A call of a JetStream context method, followed by the API requests it sends.\<close>

definition log_call :: "nats_lib \<Rightarrow> nat \<Rightarrow> request \<Rightarrow> world \<Rightarrow> world" where
  "log_call L js r w =
     w\<lparr>events := events w @ EvCall js r # map (EvMessage js) (lib_messages L r)\<rparr>"

definition nc_Close :: "nat \<Rightarrow> world \<Rightarrow> world" where
  "nc_Close nc w = log_event (EvClose nc) w"

definition nc_JetStream :: "nats_lib \<Rightarrow> nat \<Rightarrow> world \<Rightarrow> lib_error option \<times> world" where
  "nc_JetStream L nc w = (lib_JetStream L, log_event (EvJetStream nc) w)"

definition js_StreamInfo ::
  "nats_lib \<Rightarrow> nat \<Rightarrow> string \<Rightarrow> world \<Rightarrow> (lib_error + StreamInfo) \<times> world" where
  "js_StreamInfo L js name w =
     (lib_StreamInfo L name, log_call L js (ReqStreamInfo name) w)"

definition js_AddStream ::
  "nats_lib \<Rightarrow> nat \<Rightarrow> StreamConfig \<Rightarrow> world \<Rightarrow> (lib_error + StreamInfo) \<times> world" where
  "js_AddStream L js cfg w =
     (lib_AddStream L cfg, log_call L js (ReqAddStream cfg) w)"

definition js_UpdateStream ::
  "nats_lib \<Rightarrow> nat \<Rightarrow> StreamConfig \<Rightarrow> world \<Rightarrow> (lib_error + StreamInfo) \<times> world" where
  "js_UpdateStream L js cfg w =
     (lib_UpdateStream L cfg, log_call L js (ReqUpdateStream cfg) w)"

definition js_DeleteStream ::
  "nats_lib \<Rightarrow> nat \<Rightarrow> string \<Rightarrow> world \<Rightarrow> lib_error option \<times> world" where
  "js_DeleteStream L js name w =
     (lib_DeleteStream L name, log_call L js (ReqDeleteStream name) w)"

definition js_ConsumerInfo ::
  "nats_lib \<Rightarrow> nat \<Rightarrow> string \<Rightarrow> string \<Rightarrow> world \<Rightarrow> (lib_error + ConsumerInfo) \<times> world" where
  "js_ConsumerInfo L js stream consumer w =
     (lib_ConsumerInfo L stream consumer,
      log_call L js (ReqConsumerInfo stream consumer) w)"

definition js_AddConsumer ::
  "nats_lib \<Rightarrow> nat \<Rightarrow> string \<Rightarrow> ConsumerConfig \<Rightarrow> world \<Rightarrow> (lib_error + ConsumerInfo) \<times> world" where
  "js_AddConsumer L js stream cfg w =
     (lib_AddConsumer L stream cfg,
      log_call L js (ReqAddConsumer stream cfg) w)"

definition js_UpdateConsumer ::
  "nats_lib \<Rightarrow> nat \<Rightarrow> string \<Rightarrow> ConsumerConfig \<Rightarrow> world \<Rightarrow> (lib_error + ConsumerInfo) \<times> world" where
  "js_UpdateConsumer L js stream cfg w =
     (lib_UpdateConsumer L stream cfg,
      log_call L js (ReqUpdateConsumer stream cfg) w)"

definition js_DeleteConsumer ::
  "nats_lib \<Rightarrow> nat \<Rightarrow> string \<Rightarrow> string \<Rightarrow> world \<Rightarrow> lib_error option \<times> world" where
  "js_DeleteConsumer L js stream consumer w =
     (lib_DeleteConsumer L stream consumer,
      log_call L js (ReqDeleteConsumer stream consumer) w)"

subsection \<open>The client and its eight methods\<close>

text \<open>
  The client holds the server's URL and nothing else. A method returning
  \<open>(StreamInfo, error)\<close> is modelled as returning the pair of the info and an optional
  error (\<open>None\<close> is Go's \<open>nil\<close>). \<open>defer nc.Close()\<close> is registered once the connection is
  open, so the close runs after the rest of the body on every path through it.
\<close>

record client =
  url :: string

definition NewClient :: "string \<Rightarrow> client" where
  "NewClient u = \<lparr>url = u\<rparr>"

definition GetStream ::
  "nats_lib \<Rightarrow> client \<Rightarrow> string \<Rightarrow> world \<Rightarrow> (StreamInfo \<times> error option) \<times> world" where
  "GetStream L c streamName w =
     (case nats_Connect L (url c) w of
        (Inl err, w1) \<Rightarrow>
          ((zero_StreamInfo, Some (Wrapf ''failed to connect to nats'' err)), w1)
      | (Inr nc, w1) \<Rightarrow>
          (let (ret, w4) =
             (case nc_JetStream L nc w1 of
                (Some err, w2) \<Rightarrow>
                  ((zero_StreamInfo,
                    Some (Wrapf ''failed to create a jetstream context'' err)), w2)
              | (None, w2) \<Rightarrow>
                  (case js_StreamInfo L nc streamName w2 of
                     (Inl err, w3) \<Rightarrow>
                       (if lib_errors_Is err ErrStreamNotFound
                           \<or> lib_errors_Is err ErrConsumerNotFound
                        then ((zero_StreamInfo, Some ErrNotFound), w3)
                        else ((zero_StreamInfo,
                               Some (Wrapf ''failed to retrieve stream info'' err)), w3))
                   | (Inr info, w3) \<Rightarrow> ((info, None), w3)))
           in (ret, nc_Close nc w4)))"

definition CreateStream ::
  "nats_lib \<Rightarrow> client \<Rightarrow> StreamConfig \<Rightarrow> world \<Rightarrow> (StreamInfo \<times> error option) \<times> world" where
  "CreateStream L c streamConfig w =
     (case nats_Connect L (url c) w of
        (Inl err, w1) \<Rightarrow>
          ((zero_StreamInfo, Some (Wrapf ''failed to connect to nats'' err)), w1)
      | (Inr nc, w1) \<Rightarrow>
          (let (ret, w4) =
             (case nc_JetStream L nc w1 of
                (Some err, w2) \<Rightarrow>
                  ((zero_StreamInfo,
                    Some (Wrapf ''failed to create a jetstream context'' err)), w2)
              | (None, w2) \<Rightarrow>
                  (case js_AddStream L nc streamConfig w2 of
                     (Inl err, w3) \<Rightarrow>
                       ((zero_StreamInfo, Some (Wrapf ''failed to create stream'' err)), w3)
                   | (Inr info, w3) \<Rightarrow> ((info, None), w3)))
           in (ret, nc_Close nc w4)))"

definition UpdateStream ::
  "nats_lib \<Rightarrow> client \<Rightarrow> StreamConfig \<Rightarrow> world \<Rightarrow> (StreamInfo \<times> error option) \<times> world" where
  "UpdateStream L c streamConfig w =
     (case nats_Connect L (url c) w of
        (Inl err, w1) \<Rightarrow>
          ((zero_StreamInfo, Some (Wrapf ''failed to connect to nats'' err)), w1)
      | (Inr nc, w1) \<Rightarrow>
          (let (ret, w4) =
             (case nc_JetStream L nc w1 of
                (Some err, w2) \<Rightarrow>
                  ((zero_StreamInfo,
                    Some (Wrapf ''failed to create a jetstream context'' err)), w2)
              | (None, w2) \<Rightarrow>
                  (case js_UpdateStream L nc streamConfig w2 of
                     (Inl err, w3) \<Rightarrow>
                       ((zero_StreamInfo, Some (Wrapf ''failed to update stream'' err)), w3)
                   | (Inr info, w3) \<Rightarrow> ((info, None), w3)))
           in (ret, nc_Close nc w4)))"

definition DeleteStream ::
  "nats_lib \<Rightarrow> client \<Rightarrow> string \<Rightarrow> world \<Rightarrow> error option \<times> world" where
  "DeleteStream L c streamName w =
     (case nats_Connect L (url c) w of
        (Inl err, w1) \<Rightarrow> (Some (Wrapf ''failed to connect to nats'' err), w1)
      | (Inr nc, w1) \<Rightarrow>
          (let (ret, w4) =
             (case nc_JetStream L nc w1 of
                (Some err, w2) \<Rightarrow>
                  (Some (Wrapf ''failed to create a jetstream context'' err), w2)
              | (None, w2) \<Rightarrow>
                  (case js_DeleteStream L nc streamName w2 of
                     (Some err, w3) \<Rightarrow> (Some (Wrapf ''failed to delete stream'' err), w3)
                   | (None, w3) \<Rightarrow> (None, w3)))
           in (ret, nc_Close nc w4)))"

definition GetConsumer ::
  "nats_lib \<Rightarrow> client \<Rightarrow> string \<Rightarrow> string \<Rightarrow> world \<Rightarrow> (ConsumerInfo \<times> error option) \<times> world" where
  "GetConsumer L c streamName consumerName w =
     (case nats_Connect L (url c) w of
        (Inl err, w1) \<Rightarrow>
          ((zero_ConsumerInfo, Some (Wrapf ''failed to connect to nats'' err)), w1)
      | (Inr nc, w1) \<Rightarrow>
          (let (ret, w4) =
             (case nc_JetStream L nc w1 of
                (Some err, w2) \<Rightarrow>
                  ((zero_ConsumerInfo,
                    Some (Wrapf ''failed to create a jetstream context'' err)), w2)
              | (None, w2) \<Rightarrow>
                  (case js_ConsumerInfo L nc streamName consumerName w2 of
                     (Inl err, w3) \<Rightarrow>
                       (if lib_errors_Is err ErrStreamNotFound
                           \<or> lib_errors_Is err ErrConsumerNotFound
                        then ((zero_ConsumerInfo, Some ErrNotFound), w3)
                        else ((zero_ConsumerInfo,
                               Some (Wrapf ''failed to retrieve consumer info'' err)), w3))
                   | (Inr info, w3) \<Rightarrow> ((info, None), w3)))
           in (ret, nc_Close nc w4)))"

definition CreateConsumer ::
  "nats_lib \<Rightarrow> client \<Rightarrow> string \<Rightarrow> ConsumerConfig \<Rightarrow> world
     \<Rightarrow> (ConsumerInfo \<times> error option) \<times> world" where
  "CreateConsumer L c streamName consumerConfig w =
     (case nats_Connect L (url c) w of
        (Inl err, w1) \<Rightarrow>
          ((zero_ConsumerInfo, Some (Wrapf ''failed to connect to nats'' err)), w1)
      | (Inr nc, w1) \<Rightarrow>
          (let (ret, w4) =
             (case nc_JetStream L nc w1 of
                (Some err, w2) \<Rightarrow>
                  ((zero_ConsumerInfo,
                    Some (Wrapf ''failed to create a jetstream context'' err)), w2)
              | (None, w2) \<Rightarrow>
                  (case js_AddConsumer L nc streamName consumerConfig w2 of
                     (Inl err, w3) \<Rightarrow>
                       ((zero_ConsumerInfo, Some (Wrapf ''failed to create consumer'' err)), w3)
                   | (Inr info, w3) \<Rightarrow> ((info, None), w3)))
           in (ret, nc_Close nc w4)))"

definition UpdateConsumer ::
  "nats_lib \<Rightarrow> client \<Rightarrow> string \<Rightarrow> ConsumerConfig \<Rightarrow> world
     \<Rightarrow> (ConsumerInfo \<times> error option) \<times> world" where
  "UpdateConsumer L c streamName consumerConfig w =
     (case nats_Connect L (url c) w of
        (Inl err, w1) \<Rightarrow>
          ((zero_ConsumerInfo, Some (Wrapf ''failed to connect to nats'' err)), w1)
      | (Inr nc, w1) \<Rightarrow>
          (let (ret, w4) =
             (case nc_JetStream L nc w1 of
                (Some err, w2) \<Rightarrow>
                  ((zero_ConsumerInfo,
                    Some (Wrapf ''failed to create a jetstream context'' err)), w2)
              | (None, w2) \<Rightarrow>
                  (case js_UpdateConsumer L nc streamName consumerConfig w2 of
                     (Inl err, w3) \<Rightarrow>
                       ((zero_ConsumerInfo, Some (Wrapf ''failed to update consumer'' err)), w3)
                   | (Inr info, w3) \<Rightarrow> ((info, None), w3)))
           in (ret, nc_Close nc w4)))"

definition DeleteConsumer ::
  "nats_lib \<Rightarrow> client \<Rightarrow> string \<Rightarrow> string \<Rightarrow> world \<Rightarrow> error option \<times> world" where
  "DeleteConsumer L c streamName consumerName w =
     (case nats_Connect L (url c) w of
        (Inl err, w1) \<Rightarrow> (Some (Wrapf ''failed to connect to nats'' err), w1)
      | (Inr nc, w1) \<Rightarrow>
          (let (ret, w4) =
             (case nc_JetStream L nc w1 of
                (Some err, w2) \<Rightarrow>
                  (Some (Wrapf ''failed to create a jetstream context'' err), w2)
              | (None, w2) \<Rightarrow>
                  (case js_DeleteConsumer L nc streamName consumerName w2 of
                     (Some err, w3) \<Rightarrow> (Some (Wrapf ''failed to delete consumer'' err), w3)
                   | (None, w3) \<Rightarrow> (None, w3)))
           in (ret, nc_Close nc w4)))"

section \<open>Package provider: models, validators and conversions\<close>

subsection \<open>utils.go\<close>

text \<open>
  The framework's int64 and string validators, as predicates on the known value:
  \<open>OneOf\<close> accepts the listed values, \<open>AtLeast\<close> and \<open>Between\<close> compare as signed
  integers, \<open>Any\<close> accepts what one of its validators accepts.
\<close>

definition int64validator_OneOf :: "int64 list \<Rightarrow> int64 \<Rightarrow> bool" where
  "int64validator_OneOf vs v = (v \<in> set vs)"

definition int64validator_AtLeast :: "int64 \<Rightarrow> int64 \<Rightarrow> bool" where
  "int64validator_AtLeast lo v = (sint lo \<le> sint v)"

definition int64validator_Between :: "int64 \<Rightarrow> int64 \<Rightarrow> int64 \<Rightarrow> bool" where
  "int64validator_Between lo hi v = (sint lo \<le> sint v \<and> sint v \<le> sint hi)"

definition int64validator_Any :: "(int64 \<Rightarrow> bool) list \<Rightarrow> int64 \<Rightarrow> bool" where
  "int64validator_Any vs v = list_ex (\<lambda>f. f v) vs"

definition stringvalidator_OneOf :: "string list \<Rightarrow> string \<Rightarrow> bool" where
  "stringvalidator_OneOf vs v = (v \<in> set vs)"

definition infinityOrPositiveInt64Validator :: "int64 \<Rightarrow> bool" where
  "infinityOrPositiveInt64Validator =
     int64validator_Any [int64validator_OneOf [- 1], int64validator_AtLeast 1]"

text \<open>\<open>convertSlice\<close> appends \<open>fn(elem)\<close> to the output for each element in turn.\<close>

definition convertSlice :: "'s list \<Rightarrow> ('s \<Rightarrow> 'd) \<Rightarrow> 'd list" where
  "convertSlice inp fn = fold (\<lambda>elem out. out @ [fn elem]) inp []"

subsection \<open>Schemas\<close>

text \<open>
  A schema maps attribute names to attributes. Of an attribute the model keeps its
  kind and its validators. The framework runs an attribute's validators on a known value
  only; a null or unknown value passes.
\<close>

datatype attribute =
  StringAttribute "(string \<Rightarrow> bool) list"
| Int64Attribute "(int64 \<Rightarrow> bool) list"
| BoolAttribute
| ListAttribute

definition streamResource_Schema :: "(string \<times> attribute) list" where
  "streamResource_Schema =
     [(''name'', StringAttribute []),
      (''subjects'', ListAttribute),
      (''storage'', StringAttribute [stringvalidator_OneOf [''file'', ''memory'']]),
      (''num_replicas'', Int64Attribute [int64validator_Between 1 5]),
      (''retention'', StringAttribute [stringvalidator_OneOf [''limits'', ''interest'', ''work'']]),
      (''discard'', StringAttribute [stringvalidator_OneOf [''old'', ''new'']]),
      (''max_msgs'', Int64Attribute [infinityOrPositiveInt64Validator]),
      (''max_consumers'', Int64Attribute [infinityOrPositiveInt64Validator]),
      (''max_bytes'', Int64Attribute [infinityOrPositiveInt64Validator]),
      (''max_msgs_per_subject'', Int64Attribute [infinityOrPositiveInt64Validator]),
      (''max_msg_size'', Int64Attribute [infinityOrPositiveInt64Validator]),
      (''max_age'', Int64Attribute [int64validator_AtLeast 0]),
      (''duplicate_window'', Int64Attribute [infinityOrPositiveInt64Validator]),
      (''allow_direct'', BoolAttribute)]"

definition consumerResource_Schema :: "(string \<times> attribute) list" where
  "consumerResource_Schema =
     [(''stream_name'', StringAttribute []),
      (''name'', StringAttribute []),
      (''mode'', StringAttribute [stringvalidator_OneOf [''push'', ''pull'']]),
      (''deliver_policy'', StringAttribute [stringvalidator_OneOf [''all'', ''new'', ''last'']]),
      (''ack_policy'', StringAttribute [stringvalidator_OneOf [''none'', ''all'', ''explicit'']]),
      (''filter_subjects'', ListAttribute),
      (''deliver_subject'', StringAttribute []),
      (''deliver_group'', StringAttribute [])]"

fun validate_String :: "(string \<times> attribute) list \<Rightarrow> string \<Rightarrow> tf_String \<Rightarrow> bool" where
  "validate_String schema name (StringValue s) =
     (case map_of schema name of
        Some (StringAttribute vs) \<Rightarrow> list_all (\<lambda>f. f s) vs
      | _ \<Rightarrow> True)"
| "validate_String schema name _ = True"

fun validate_Int64 :: "(string \<times> attribute) list \<Rightarrow> string \<Rightarrow> tf_Int64 \<Rightarrow> bool" where
  "validate_Int64 schema name (Int64Value v) =
     (case map_of schema name of
        Some (Int64Attribute vs) \<Rightarrow> list_all (\<lambda>f. f v) vs
      | _ \<Rightarrow> True)"
| "validate_Int64 schema name _ = True"

subsection \<open>stream_resource.go: the model and its conversions\<close>

record streamResourceModel =
  sm_Name :: tf_String
  sm_Subjects :: "tf_String list"
  sm_Storage :: tf_String
  sm_NumReplicas :: tf_Int64
  sm_Retention :: tf_String
  sm_Discard :: tf_String
  sm_MaxMsgs :: tf_Int64
  sm_MaxConsumers :: tf_Int64
  sm_MaxBytes :: tf_Int64
  sm_MaxMsgsPerSubject :: tf_Int64
  sm_MaxMsgSize :: tf_Int64
  sm_MaxAge :: tf_Int64
  sm_DuplicateWindow :: tf_Int64
  sm_AllowDirect :: tf_Bool

text \<open>The validators of the stream schema, run on every attribute of a model.\<close>

definition stream_validators_pass :: "streamResourceModel \<Rightarrow> bool" where
  "stream_validators_pass m =
     (validate_String streamResource_Schema ''name'' (sm_Name m)
      \<and> validate_String streamResource_Schema ''storage'' (sm_Storage m)
      \<and> validate_Int64 streamResource_Schema ''num_replicas'' (sm_NumReplicas m)
      \<and> validate_String streamResource_Schema ''retention'' (sm_Retention m)
      \<and> validate_String streamResource_Schema ''discard'' (sm_Discard m)
      \<and> validate_Int64 streamResource_Schema ''max_msgs'' (sm_MaxMsgs m)
      \<and> validate_Int64 streamResource_Schema ''max_consumers'' (sm_MaxConsumers m)
      \<and> validate_Int64 streamResource_Schema ''max_bytes'' (sm_MaxBytes m)
      \<and> validate_Int64 streamResource_Schema ''max_msgs_per_subject'' (sm_MaxMsgsPerSubject m)
      \<and> validate_Int64 streamResource_Schema ''max_msg_size'' (sm_MaxMsgSize m)
      \<and> validate_Int64 streamResource_Schema ''max_age'' (sm_MaxAge m)
      \<and> validate_Int64 streamResource_Schema ''duplicate_window'' (sm_DuplicateWindow m))"

text \<open>Every attribute of the model holds a known value (neither null nor unknown).\<close>

fun known_String :: "tf_String \<Rightarrow> bool" where
  "known_String (StringValue s) = True"
| "known_String _ = False"

fun known_Int64 :: "tf_Int64 \<Rightarrow> bool" where
  "known_Int64 (Int64Value v) = True"
| "known_Int64 _ = False"

fun known_Bool :: "tf_Bool \<Rightarrow> bool" where
  "known_Bool (BoolValue b) = True"
| "known_Bool _ = False"

definition stream_model_known :: "streamResourceModel \<Rightarrow> bool" where
  "stream_model_known m =
     (known_String (sm_Name m) \<and> list_all known_String (sm_Subjects m)
      \<and> known_String (sm_Storage m) \<and> known_Int64 (sm_NumReplicas m)
      \<and> known_String (sm_Retention m) \<and> known_String (sm_Discard m)
      \<and> known_Int64 (sm_MaxMsgs m) \<and> known_Int64 (sm_MaxConsumers m)
      \<and> known_Int64 (sm_MaxBytes m) \<and> known_Int64 (sm_MaxMsgsPerSubject m)
      \<and> known_Int64 (sm_MaxMsgSize m) \<and> known_Int64 (sm_MaxAge m)
      \<and> known_Int64 (sm_DuplicateWindow m) \<and> known_Bool (sm_AllowDirect m))"

text \<open>
  The Go conversions between integer types: \<open>int(x)\<close> and \<open>int64(x)\<close> between \<open>int64\<close>
  and \<open>int\<close> keep the 64 bits, \<open>int32(x)\<close> keeps the low 32 bits of an \<open>int64\<close>, and
  \<open>int64(x)\<close> sign-extends an \<open>int32\<close>. \<open>time.Duration\<close> is an \<open>int64\<close>.
\<close>

definition int_of_int64 :: "int64 \<Rightarrow> go_int" where
  "int_of_int64 v = scast v"

definition int64_of_int :: "go_int \<Rightarrow> int64" where
  "int64_of_int v = scast v"

definition int32_of_int64 :: "int64 \<Rightarrow> int32" where
  "int32_of_int64 v = ucast v"

definition int64_of_int32 :: "int32 \<Rightarrow> int64" where
  "int64_of_int32 v = scast v"

definition toStreamConfig :: "streamResourceModel \<Rightarrow> StreamConfig" where
  "toStreamConfig data =
     \<lparr>sc_Name = ValueString (sm_Name data),
      sc_Subjects = convertSlice (sm_Subjects data) ValueString,
      sc_Storage = ToStorageType (ValueString (sm_Storage data)),
      sc_Replicas = int_of_int64 (ValueInt64 (sm_NumReplicas data)),
      sc_Retention = ToRetentionPolicy (ValueString (sm_Retention data)),
      sc_Discard = ToDiscardPolicy (ValueString (sm_Discard data)),
      sc_MaxMsgs = ValueInt64 (sm_MaxMsgs data),
      sc_MaxConsumers = int_of_int64 (ValueInt64 (sm_MaxConsumers data)),
      sc_MaxBytes = ValueInt64 (sm_MaxBytes data),
      sc_MaxMsgsPerSubject = ValueInt64 (sm_MaxMsgsPerSubject data),
      sc_MaxMsgSize = int32_of_int64 (ValueInt64 (sm_MaxMsgSize data)),
      sc_MaxAge = ValueInt64 (sm_MaxAge data),
      sc_Duplicates = ValueInt64 (sm_DuplicateWindow data),
      sc_AllowDirect = ValueBool (sm_AllowDirect data)\<rparr>"

definition fromStreamInfo :: "StreamInfo \<Rightarrow> streamResourceModel" where
  "fromStreamInfo streamInfo =
     \<lparr>sm_Name = StringValue (sc_Name (si_Config streamInfo)),
      sm_Subjects = convertSlice (sc_Subjects (si_Config streamInfo)) StringValue,
      sm_Storage = StringValue (FromStorageType (sc_Storage (si_Config streamInfo))),
      sm_NumReplicas = Int64Value (int64_of_int (sc_Replicas (si_Config streamInfo))),
      sm_Retention = StringValue (FromRetentionPolicy (sc_Retention (si_Config streamInfo))),
      sm_Discard = StringValue (FromDiscardPolicy (sc_Discard (si_Config streamInfo))),
      sm_MaxMsgs = Int64Value (sc_MaxMsgs (si_Config streamInfo)),
      sm_MaxConsumers = Int64Value (int64_of_int (sc_MaxConsumers (si_Config streamInfo))),
      sm_MaxBytes = Int64Value (sc_MaxBytes (si_Config streamInfo)),
      sm_MaxMsgsPerSubject = Int64Value (sc_MaxMsgsPerSubject (si_Config streamInfo)),
      sm_MaxMsgSize = Int64Value (int64_of_int32 (sc_MaxMsgSize (si_Config streamInfo))),
      sm_MaxAge = Int64Value (sc_MaxAge (si_Config streamInfo)),
      sm_DuplicateWindow = Int64Value (sc_Duplicates (si_Config streamInfo)),
      sm_AllowDirect = BoolValue (sc_AllowDirect (si_Config streamInfo))\<rparr>"

subsection \<open>consumer_resource.go: the model and its conversions\<close>

record consumerResourceModel =
  cm_StreamName :: tf_String
  cm_Name :: tf_String
  cm_Mode :: tf_String
  cm_DeliverPolicy :: tf_String
  cm_AckPolicy :: tf_String
  cm_FilterSubjects :: "tf_String list"
  cm_DeliverSubject :: tf_String
  cm_DeliverGroup :: tf_String

definition validateMode :: "consumerResourceModel \<Rightarrow> error option" where
  "validateMode data =
     (if ValueString (cm_Mode data) = ''pull'' \<and> ValueString (cm_DeliverSubject data) \<noteq> []
      then Some (Errorf
        (''Attribute 'deliver_subject' must not be set if 'mode' is 'pull'' @ [CHR 0x27]))
      else if ValueString (cm_Mode data) = ''push'' \<and> ValueString (cm_DeliverSubject data) = []
      then Some (Errorf
        (''Attribute 'deliver_subject' must be set if 'mode' is 'push'' @ [CHR 0x27]))
      else None)"

definition toConsumerConfig :: "consumerResourceModel \<Rightarrow> ConsumerConfig \<times> error option" where
  "toConsumerConfig data =
     (case validateMode data of
        Some err \<Rightarrow> (zero_ConsumerConfig, Some err)
      | None \<Rightarrow>
          (\<lparr>cc_Name = ValueString (cm_Name data),
            cc_Durable = ValueString (cm_Name data),
            cc_DeliverPolicy = ToDeliverPolicy (ValueString (cm_DeliverPolicy data)),
            cc_AckPolicy = ToAckPolicy (ValueString (cm_AckPolicy data)),
            cc_FilterSubjects = convertSlice (cm_FilterSubjects data) ValueString,
            cc_DeliverSubject = ValueString (cm_DeliverSubject data),
            cc_DeliverGroup = ValueString (cm_DeliverGroup data)\<rparr>, None))"

definition fromConsumerInfo :: "ConsumerInfo \<Rightarrow> consumerResourceModel" where
  "fromConsumerInfo consumerInfo =
     (let mode = (if cc_DeliverSubject (ci_Config consumerInfo) \<noteq> [] then ''push'' else ''pull'')
      in \<lparr>cm_StreamName = StringValue (ci_Stream consumerInfo),
          cm_Name = StringValue (ci_Name consumerInfo),
          cm_Mode = StringValue mode,
          cm_DeliverPolicy =
            StringValue (FromDeliverPolicy (cc_DeliverPolicy (ci_Config consumerInfo))),
          cm_AckPolicy = StringValue (FromAckPolicy (cc_AckPolicy (ci_Config consumerInfo))),
          cm_FilterSubjects =
            convertSlice (cc_FilterSubjects (ci_Config consumerInfo)) StringValue,
          cm_DeliverSubject = StringValue (cc_DeliverSubject (ci_Config consumerInfo)),
          cm_DeliverGroup = StringValue (cc_DeliverGroup (ci_Config consumerInfo))\<rparr>)"

section \<open>Package provider: the resource operations\<close>

subsection \<open>Diagnostics, state and the client interface\<close>

text \<open>
  A diagnostic has a severity, an optional attribute path, a summary and a detail.
  The framework's \<open>Diagnostics.Append\<close> skips a diagnostic the collection already holds;
  \<open>AddError\<close>, \<open>AddWarning\<close> and \<open>AddAttributeError\<close> append one diagnostic.
\<close>

datatype severity = SeverityError | SeverityWarning

record diagnostic =
  d_severity :: severity
  d_path :: "string option"
  d_summary :: string
  d_detail :: string

definition HasError :: "diagnostic list \<Rightarrow> bool" where
  "HasError ds = list_ex (\<lambda>d. d_severity d = SeverityError) ds"

definition Diagnostics_Append :: "diagnostic list \<Rightarrow> diagnostic list \<Rightarrow> diagnostic list" where
  "Diagnostics_Append ds new = fold (\<lambda>d acc. if d \<in> set acc then acc else acc @ [d]) new ds"

definition ErrorDiagnostic :: "string \<Rightarrow> string \<Rightarrow> diagnostic" where
  "ErrorDiagnostic summary detail =
     \<lparr>d_severity = SeverityError, d_path = None, d_summary = summary, d_detail = detail\<rparr>"

definition WarningDiagnostic :: "string \<Rightarrow> string \<Rightarrow> diagnostic" where
  "WarningDiagnostic summary detail =
     \<lparr>d_severity = SeverityWarning, d_path = None, d_summary = summary, d_detail = detail\<rparr>"

definition AttributeErrorDiagnostic :: "string \<Rightarrow> string \<Rightarrow> string \<Rightarrow> diagnostic" where
  "AttributeErrorDiagnostic path summary detail =
     \<lparr>d_severity = SeverityError, d_path = Some path, d_summary = summary, d_detail = detail\<rparr>"

text \<open>
  The response of a resource operation: its diagnostics and the resource's state, where
  \<open>None\<close> is the state after \<open>RemoveResource\<close>. \<open>State.Set\<close> of a model struct whose
  fields match the schema stores the model and returns no diagnostic.
\<close>

record 'm Response =
  Diagnostics :: "diagnostic list"
  State :: "'m option"

definition AddError :: "string \<Rightarrow> string \<Rightarrow> 'm Response \<Rightarrow> 'm Response" where
  "AddError summary detail resp =
     resp\<lparr>Diagnostics := Diagnostics_Append (Diagnostics resp) [ErrorDiagnostic summary detail]\<rparr>"

definition AddWarning :: "string \<Rightarrow> string \<Rightarrow> 'm Response \<Rightarrow> 'm Response" where
  "AddWarning summary detail resp =
     resp\<lparr>Diagnostics := Diagnostics_Append (Diagnostics resp) [WarningDiagnostic summary detail]\<rparr>"

definition AddAttributeError ::
  "string \<Rightarrow> string \<Rightarrow> string \<Rightarrow> 'm Response \<Rightarrow> 'm Response" where
  "AddAttributeError path summary detail resp =
     resp\<lparr>Diagnostics :=
       Diagnostics_Append (Diagnostics resp) [AttributeErrorDiagnostic path summary detail]\<rparr>"

definition Append_diags :: "diagnostic list \<Rightarrow> 'm Response \<Rightarrow> 'm Response" where
  "Append_diags new resp = resp\<lparr>Diagnostics := Diagnostics_Append (Diagnostics resp) new\<rparr>"

definition State_Set :: "'m \<Rightarrow> 'm Response \<Rightarrow> 'm Response" where
  "State_Set data resp = Append_diags [] (resp\<lparr>State := Some data\<rparr>)"

definition State_RemoveResource :: "'m Response \<Rightarrow> 'm Response" where
  "State_RemoveResource resp = resp\<lparr>State := None\<rparr>"

text \<open>
  \<open>req.Plan.Get(ctx, &data)\<close> and \<open>req.State.Get(ctx, &data)\<close> decode the plan or the
  state into a model struct and return diagnostics. What they return is the framework's
  business: an operation takes the pair of the diagnostics and the decoded model.
\<close>

type_synonym 'm decoded = "diagnostic list \<times> 'm"

text \<open>
  The interface \<open>nats.Client\<close>. An implementation runs in some world \<open>'w\<close>. The resources
  call it through \<open>r.client\<close>; each call is recorded, with its arguments, in a call log
  kept beside the world, so that the calls an operation makes can be counted.
\<close>

record 'w Client =
  Client_GetStream :: "string \<Rightarrow> 'w \<Rightarrow> (StreamInfo \<times> error option) \<times> 'w"
  Client_CreateStream :: "StreamConfig \<Rightarrow> 'w \<Rightarrow> (StreamInfo \<times> error option) \<times> 'w"
  Client_UpdateStream :: "StreamConfig \<Rightarrow> 'w \<Rightarrow> (StreamInfo \<times> error option) \<times> 'w"
  Client_DeleteStream :: "string \<Rightarrow> 'w \<Rightarrow> error option \<times> 'w"
  Client_GetConsumer :: "string \<Rightarrow> string \<Rightarrow> 'w \<Rightarrow> (ConsumerInfo \<times> error option) \<times> 'w"
  Client_CreateConsumer ::
    "string \<Rightarrow> ConsumerConfig \<Rightarrow> 'w \<Rightarrow> (ConsumerInfo \<times> error option) \<times> 'w"
  Client_UpdateConsumer ::
    "string \<Rightarrow> ConsumerConfig \<Rightarrow> 'w \<Rightarrow> (ConsumerInfo \<times> error option) \<times> 'w"
  Client_DeleteConsumer :: "string \<Rightarrow> string \<Rightarrow> 'w \<Rightarrow> error option \<times> 'w"

text \<open>The one implementation in the repository: \<open>*client\<close>, over a NATS library \<open>L\<close>.\<close>

definition client_impl :: "nats_lib \<Rightarrow> client \<Rightarrow> world Client" where
  "client_impl L c =
     \<lparr>Client_GetStream = GetStream L c,
      Client_CreateStream = CreateStream L c,
      Client_UpdateStream = UpdateStream L c,
      Client_DeleteStream = DeleteStream L c,
      Client_GetConsumer = GetConsumer L c,
      Client_CreateConsumer = CreateConsumer L c,
      Client_UpdateConsumer = UpdateConsumer L c,
      Client_DeleteConsumer = DeleteConsumer L c\<rparr>"

datatype client_call =
  CallGetStream string
| CallCreateStream StreamConfig
| CallUpdateStream StreamConfig
| CallDeleteStream string
| CallGetConsumer string string
| CallCreateConsumer string ConsumerConfig
| CallUpdateConsumer string ConsumerConfig
| CallDeleteConsumer string string

type_synonym 'w env = "'w \<times> client_call list"

definition invoke :: "client_call \<Rightarrow> ('w \<Rightarrow> 'r \<times> 'w) \<Rightarrow> 'w env \<Rightarrow> 'r \<times> 'w env" where
  "invoke call method e =
     (case method (fst e) of (ret, w') \<Rightarrow> (ret, (w', snd e @ [call])))"

definition call_GetStream ::
  "'w Client \<Rightarrow> string \<Rightarrow> 'w env \<Rightarrow> (StreamInfo \<times> error option) \<times> 'w env" where
  "call_GetStream cl streamName = invoke (CallGetStream streamName) (Client_GetStream cl streamName)"

definition call_CreateStream ::
  "'w Client \<Rightarrow> StreamConfig \<Rightarrow> 'w env \<Rightarrow> (StreamInfo \<times> error option) \<times> 'w env" where
  "call_CreateStream cl cfg = invoke (CallCreateStream cfg) (Client_CreateStream cl cfg)"

definition call_UpdateStream ::
  "'w Client \<Rightarrow> StreamConfig \<Rightarrow> 'w env \<Rightarrow> (StreamInfo \<times> error option) \<times> 'w env" where
  "call_UpdateStream cl cfg = invoke (CallUpdateStream cfg) (Client_UpdateStream cl cfg)"

definition call_DeleteStream :: "'w Client \<Rightarrow> string \<Rightarrow> 'w env \<Rightarrow> error option \<times> 'w env" where
  "call_DeleteStream cl streamName =
     invoke (CallDeleteStream streamName) (Client_DeleteStream cl streamName)"

definition call_GetConsumer ::
  "'w Client \<Rightarrow> string \<Rightarrow> string \<Rightarrow> 'w env \<Rightarrow> (ConsumerInfo \<times> error option) \<times> 'w env" where
  "call_GetConsumer cl streamName consumerName =
     invoke (CallGetConsumer streamName consumerName)
       (Client_GetConsumer cl streamName consumerName)"

definition call_CreateConsumer ::
  "'w Client \<Rightarrow> string \<Rightarrow> ConsumerConfig \<Rightarrow> 'w env
     \<Rightarrow> (ConsumerInfo \<times> error option) \<times> 'w env" where
  "call_CreateConsumer cl streamName cfg =
     invoke (CallCreateConsumer streamName cfg) (Client_CreateConsumer cl streamName cfg)"

definition call_UpdateConsumer ::
  "'w Client \<Rightarrow> string \<Rightarrow> ConsumerConfig \<Rightarrow> 'w env
     \<Rightarrow> (ConsumerInfo \<times> error option) \<times> 'w env" where
  "call_UpdateConsumer cl streamName cfg =
     invoke (CallUpdateConsumer streamName cfg) (Client_UpdateConsumer cl streamName cfg)"

definition call_DeleteConsumer ::
  "'w Client \<Rightarrow> string \<Rightarrow> string \<Rightarrow> 'w env \<Rightarrow> error option \<times> 'w env" where
  "call_DeleteConsumer cl streamName consumerName =
     invoke (CallDeleteConsumer streamName consumerName)
       (Client_DeleteConsumer cl streamName consumerName)"

subsection \<open>stream_resource.go: Create, Read, Update, Delete\<close>

definition streamResource_Create ::
  "'w Client \<Rightarrow> streamResourceModel decoded \<Rightarrow> streamResourceModel Response \<Rightarrow> 'w env
     \<Rightarrow> streamResourceModel Response \<times> 'w env" where
  "streamResource_Create cl req_Plan resp0 e =
     (let data = snd req_Plan;
          resp = Append_diags (fst req_Plan) resp0
      in if HasError (Diagnostics resp) then (resp, e)
         else (case call_CreateStream cl (toStreamConfig data) e of
                 ((streamInfo, Some err), e') \<Rightarrow>
                   (AddError ''Client error'' (''Failed to create stream: '' @ Error err) resp, e')
               | ((streamInfo, None), e') \<Rightarrow>
                   (State_Set (fromStreamInfo streamInfo) resp, e')))"

definition streamResource_Read ::
  "'w Client \<Rightarrow> streamResourceModel decoded \<Rightarrow> streamResourceModel Response \<Rightarrow> 'w env
     \<Rightarrow> streamResourceModel Response \<times> 'w env" where
  "streamResource_Read cl req_State resp0 e =
     (let data = snd req_State;
          resp = Append_diags (fst req_State) resp0
      in if HasError (Diagnostics resp) then (resp, e)
         else (case call_GetStream cl (ValueString (sm_Name data)) e of
                 ((streamInfo, Some err), e') \<Rightarrow>
                   (if errors_Is_ErrNotFound err
                    then (State_RemoveResource
                            (AddWarning ''Resource not found''
                               ''couldn't find the stream, possibly deleted outside terraform''
                               resp), e')
                    else (AddError ''Client error''
                            (''Failed to read stream: '' @ Error err) resp, e'))
               | ((streamInfo, None), e') \<Rightarrow>
                   (State_Set (fromStreamInfo streamInfo) resp, e')))"

definition streamResource_Update ::
  "'w Client \<Rightarrow> streamResourceModel decoded \<Rightarrow> streamResourceModel decoded
     \<Rightarrow> streamResourceModel Response \<Rightarrow> 'w env \<Rightarrow> streamResourceModel Response \<times> 'w env" where
  "streamResource_Update cl req_Plan req_State resp0 e =
     (let plan = snd req_Plan;
          resp1 = Append_diags (fst req_Plan) resp0
      in if HasError (Diagnostics resp1) then (resp1, e)
         else
          (let state = snd req_State;
               resp = Append_diags (fst req_State) resp1
           in if HasError (Diagnostics resp) then (resp, e)
              else if sm_Name plan \<noteq> sm_Name state
              then (AddAttributeError ''name'' ''Cannot change stream name''
                      (''The stream is identified by its name. If you wish to change the name, ''
                       @ ''you must create a new stream.'') resp, e)
              else (case call_UpdateStream cl (toStreamConfig plan) e of
                      ((streamInfo, Some err), e') \<Rightarrow>
                        (AddError ''Client error''
                           (''Failed to update stream: '' @ Error err) resp, e')
                    | ((streamInfo, None), e') \<Rightarrow>
                        (State_Set (fromStreamInfo streamInfo) resp, e'))))"

definition streamResource_Delete ::
  "'w Client \<Rightarrow> streamResourceModel decoded \<Rightarrow> streamResourceModel Response \<Rightarrow> 'w env
     \<Rightarrow> streamResourceModel Response \<times> 'w env" where
  "streamResource_Delete cl req_State resp0 e =
     (let state = snd req_State;
          resp = Append_diags (fst req_State) resp0
      in if HasError (Diagnostics resp) then (resp, e)
         else (case call_DeleteStream cl (ValueString (sm_Name state)) e of
                 (Some err, e') \<Rightarrow>
                   (AddError ''Client error'' (''Failed to delete stream: '' @ Error err) resp, e')
               | (None, e') \<Rightarrow> (resp, e')))"

subsection \<open>consumer_resource.go: Create, Read, Update, Delete\<close>

definition consumerResource_Create ::
  "'w Client \<Rightarrow> consumerResourceModel decoded \<Rightarrow> consumerResourceModel Response \<Rightarrow> 'w env
     \<Rightarrow> consumerResourceModel Response \<times> 'w env" where
  "consumerResource_Create cl req_Plan resp0 e =
     (let data = snd req_Plan;
          resp = Append_diags (fst req_Plan) resp0
      in if HasError (Diagnostics resp) then (resp, e)
         else (case toConsumerConfig data of
                 (consumerConfig, Some err) \<Rightarrow> (AddError ''Validation error'' (Error err) resp, e)
               | (consumerConfig, None) \<Rightarrow>
                   (case call_CreateConsumer cl (ValueString (cm_StreamName data)) consumerConfig e of
                      ((consumerInfo, Some err), e') \<Rightarrow>
                        (AddError ''Client error''
                           (''Failed to create consumer: '' @ Error err) resp, e')
                    | ((consumerInfo, None), e') \<Rightarrow>
                        (State_Set (fromConsumerInfo consumerInfo) resp, e'))))"

definition consumerResource_Read ::
  "'w Client \<Rightarrow> consumerResourceModel decoded \<Rightarrow> consumerResourceModel Response \<Rightarrow> 'w env
     \<Rightarrow> consumerResourceModel Response \<times> 'w env" where
  "consumerResource_Read cl req_State resp0 e =
     (let data = snd req_State;
          resp = Append_diags (fst req_State) resp0
      in if HasError (Diagnostics resp) then (resp, e)
         else (case call_GetConsumer cl (ValueString (cm_StreamName data))
                      (ValueString (cm_Name data)) e of
                 ((consumerInfo, Some err), e') \<Rightarrow>
                   (if errors_Is_ErrNotFound err
                    then (State_RemoveResource
                            (AddWarning ''Resource not found''
                               ''couldn't find the consumer, possibly deleted outside terraform''
                               resp), e')
                    else (AddError ''Client error''
                            (''Failed to read consumer: '' @ Error err) resp, e'))
               | ((consumerInfo, None), e') \<Rightarrow>
                   (State_Set (fromConsumerInfo consumerInfo) resp, e')))"

definition consumerResource_Update ::
  "'w Client \<Rightarrow> consumerResourceModel decoded \<Rightarrow> consumerResourceModel decoded
     \<Rightarrow> consumerResourceModel Response \<Rightarrow> 'w env
     \<Rightarrow> consumerResourceModel Response \<times> 'w env" where
  "consumerResource_Update cl req_Plan req_State resp0 e =
     (let plan = snd req_Plan;
          resp1 = Append_diags (fst req_Plan) resp0
      in if HasError (Diagnostics resp1) then (resp1, e)
         else
          (let state = snd req_State;
               resp = Append_diags (fst req_State) resp1
           in if HasError (Diagnostics resp) then (resp, e)
              else if cm_Name plan \<noteq> cm_Name state \<or> cm_StreamName plan \<noteq> cm_StreamName state
              then (AddError ''Cannot change consumer or stream name''
                      (''The consumer is identified by its name + stream name. If you wish to ''
                       @ ''change the name, you must create a new consumer.'') resp, e)
              else (case toConsumerConfig plan of
                      (consumerConfig, Some err) \<Rightarrow>
                        (AddError ''Validation error'' (Error err) resp, e)
                    | (consumerConfig, None) \<Rightarrow>
                        (case call_UpdateConsumer cl (ValueString (cm_StreamName plan))
                                consumerConfig e of
                           ((consumerInfo, Some err), e') \<Rightarrow>
                             (AddError ''Client error''
                                (''Failed to update consumer: '' @ Error err) resp, e')
                         | ((consumerInfo, None), e') \<Rightarrow>
                             (State_Set (fromConsumerInfo consumerInfo) resp, e')))))"

definition consumerResource_Delete ::
  "'w Client \<Rightarrow> consumerResourceModel decoded \<Rightarrow> consumerResourceModel Response \<Rightarrow> 'w env
     \<Rightarrow> consumerResourceModel Response \<times> 'w env" where
  "consumerResource_Delete cl req_State resp0 e =
     (let state = snd req_State;
          resp = Append_diags (fst req_State) resp0
      in if HasError (Diagnostics resp) then (resp, e)
         else (case call_DeleteConsumer cl (ValueString (cm_StreamName state))
                      (ValueString (cm_Name state)) e of
                 (Some err, e') \<Rightarrow>
                   (AddError ''Client error''
                      (''Failed to delete consumer: '' @ Error err) resp, e')
               | (None, e') \<Rightarrow> (resp, e')))"

subsection \<open>consumer_resource.go: ImportState\<close>

text \<open>
  \<open>strings.Split(s, "#")\<close> cuts \<open>s\<close> at every separator; a string with \<open>n\<close> separators
  gives \<open>n + 1\<close> parts, so the result is never empty. Indexing a Go slice out of range
  panics; \<open>go_index\<close> returns the panic as a value.
\<close>

fun strings_Split :: "string \<Rightarrow> char \<Rightarrow> string list" where
  "strings_Split [] sep = [[]]"
| "strings_Split (x # xs) sep =
     (if x = sep then [] # strings_Split xs sep
      else (case strings_Split xs sep of
              t # ts \<Rightarrow> (x # t) # ts
            | [] \<Rightarrow> [[x]]))"

datatype panic = IndexOutOfRange nat nat

definition go_index :: "'a list \<Rightarrow> nat \<Rightarrow> panic + 'a" where
  "go_index xs i = (if i < length xs then Inr (xs ! i) else Inl (IndexOutOfRange i (length xs)))"

text \<open>
  The response of an import: diagnostics and the attributes set in the state so far.
  \<open>ImportStatePassthroughID\<close> stores the import id under the given attribute;
  \<open>State.SetAttribute\<close> of a string under a string attribute returns no diagnostic.
\<close>

record ImportStateResponse =
  imp_Diagnostics :: "diagnostic list"
  imp_State :: "(string \<times> string) list"

definition State_SetAttribute :: "string \<Rightarrow> string \<Rightarrow> ImportStateResponse \<Rightarrow> ImportStateResponse" where
  "State_SetAttribute path val resp =
     resp\<lparr>imp_State := AList.update path val (imp_State resp),
          imp_Diagnostics := Diagnostics_Append (imp_Diagnostics resp) []\<rparr>"

definition ImportStatePassthroughID ::
  "string \<Rightarrow> string \<Rightarrow> ImportStateResponse \<Rightarrow> ImportStateResponse" where
  "ImportStatePassthroughID path req_ID resp = State_SetAttribute path req_ID resp"

definition consumerResource_ImportState ::
  "string \<Rightarrow> ImportStateResponse \<Rightarrow> panic + ImportStateResponse" where
  "consumerResource_ImportState req_ID resp0 =
     (let resp1 = ImportStatePassthroughID ''name'' req_ID resp0;
          tokens = strings_Split req_ID (CHR ''#'');
          resp2 =
            (if length tokens \<noteq> 2 \<or> tokens ! 0 = [] \<or> tokens ! 1 = []
             then resp1\<lparr>imp_Diagnostics :=
                    Diagnostics_Append (imp_Diagnostics resp1)
                      [ErrorDiagnostic ''Invalid import id''
                         (''The import id must be of the format 'stream_name#consumer_name''
                          @ [CHR 0x27])]\<rparr>
             else resp1)
      in case go_index tokens 0 of
           Inl p \<Rightarrow> Inl p
         | Inr stream_name \<Rightarrow>
             (let resp3 = State_SetAttribute ''stream_name'' stream_name resp2
              in case go_index tokens 1 of
                   Inl p \<Rightarrow> Inl p
                 | Inr name \<Rightarrow> Inr (State_SetAttribute ''name'' name resp3)))"

subsection \<open>stream_data_source.go: Read\<close>

text \<open>\<open>streamDataSourceModel\<close> is \<open>streamResourceModel\<close> under another name.\<close>

definition streamDataSource_Read ::
  "'w Client \<Rightarrow> streamResourceModel decoded \<Rightarrow> streamResourceModel Response \<Rightarrow> 'w env
     \<Rightarrow> streamResourceModel Response \<times> 'w env" where
  "streamDataSource_Read cl req_Config resp0 e =
     (let config = snd req_Config;
          resp = Append_diags (fst req_Config) resp0
      in if HasError (Diagnostics resp) then (resp, e)
         else (case call_GetStream cl (ValueString (sm_Name config)) e of
                 ((streamInfo, Some err), e') \<Rightarrow>
                   (AddError ''Client error'' (''Failed to get stream: '' @ Error err) resp, e')
               | ((streamInfo, None), e') \<Rightarrow>
                   (State_Set (fromStreamInfo streamInfo) resp, e')))"

section \<open>Observing the client\<close>

text \<open>
  To state a property of all eight methods at once, a method invocation is named by the
  \<open>client_call\<close> that carries its arguments, and \<open>run_call\<close> runs the method so named.
  The infos of the two kinds are put under one type; a delete method returns no info.
  \<open>lib_request\<close> is what the library answers to the one JetStream request of the method,
  \<open>request_of\<close> is that request, \<open>zero_info\<close> the zero value of the method's info and
  \<open>failure_message\<close> the text the method puts before a failed request's error.
\<close>

datatype info = StreamInfoOf StreamInfo | ConsumerInfoOf ConsumerInfo | NoInfo

fun run_call :: "nats_lib \<Rightarrow> client \<Rightarrow> client_call \<Rightarrow> world \<Rightarrow> (info \<times> error option) \<times> world" where
  "run_call L c (CallGetStream streamName) w =
     (case GetStream L c streamName w of ((i, err), w') \<Rightarrow> ((StreamInfoOf i, err), w'))"
| "run_call L c (CallCreateStream cfg) w =
     (case CreateStream L c cfg w of ((i, err), w') \<Rightarrow> ((StreamInfoOf i, err), w'))"
| "run_call L c (CallUpdateStream cfg) w =
     (case UpdateStream L c cfg w of ((i, err), w') \<Rightarrow> ((StreamInfoOf i, err), w'))"
| "run_call L c (CallDeleteStream streamName) w =
     (case DeleteStream L c streamName w of (err, w') \<Rightarrow> ((NoInfo, err), w'))"
| "run_call L c (CallGetConsumer streamName consumerName) w =
     (case GetConsumer L c streamName consumerName w of
        ((i, err), w') \<Rightarrow> ((ConsumerInfoOf i, err), w'))"
| "run_call L c (CallCreateConsumer streamName cfg) w =
     (case CreateConsumer L c streamName cfg w of
        ((i, err), w') \<Rightarrow> ((ConsumerInfoOf i, err), w'))"
| "run_call L c (CallUpdateConsumer streamName cfg) w =
     (case UpdateConsumer L c streamName cfg w of
        ((i, err), w') \<Rightarrow> ((ConsumerInfoOf i, err), w'))"
| "run_call L c (CallDeleteConsumer streamName consumerName) w =
     (case DeleteConsumer L c streamName consumerName w of (err, w') \<Rightarrow> ((NoInfo, err), w'))"

fun zero_info :: "client_call \<Rightarrow> info" where
  "zero_info (CallGetStream streamName) = StreamInfoOf zero_StreamInfo"
| "zero_info (CallCreateStream cfg) = StreamInfoOf zero_StreamInfo"
| "zero_info (CallUpdateStream cfg) = StreamInfoOf zero_StreamInfo"
| "zero_info (CallDeleteStream streamName) = NoInfo"
| "zero_info (CallGetConsumer streamName consumerName) = ConsumerInfoOf zero_ConsumerInfo"
| "zero_info (CallCreateConsumer streamName cfg) = ConsumerInfoOf zero_ConsumerInfo"
| "zero_info (CallUpdateConsumer streamName cfg) = ConsumerInfoOf zero_ConsumerInfo"
| "zero_info (CallDeleteConsumer streamName consumerName) = NoInfo"

fun request_of :: "client_call \<Rightarrow> request" where
  "request_of (CallGetStream streamName) = ReqStreamInfo streamName"
| "request_of (CallCreateStream cfg) = ReqAddStream cfg"
| "request_of (CallUpdateStream cfg) = ReqUpdateStream cfg"
| "request_of (CallDeleteStream streamName) = ReqDeleteStream streamName"
| "request_of (CallGetConsumer streamName consumerName) = ReqConsumerInfo streamName consumerName"
| "request_of (CallCreateConsumer streamName cfg) = ReqAddConsumer streamName cfg"
| "request_of (CallUpdateConsumer streamName cfg) = ReqUpdateConsumer streamName cfg"
| "request_of (CallDeleteConsumer streamName consumerName) =
     ReqDeleteConsumer streamName consumerName"

definition answer_info :: "('a \<Rightarrow> info) \<Rightarrow> lib_error + 'a \<Rightarrow> lib_error + info" where
  "answer_info f r = (case r of Inl err \<Rightarrow> Inl err | Inr i \<Rightarrow> Inr (f i))"

definition answer_none :: "lib_error option \<Rightarrow> lib_error + info" where
  "answer_none r = (case r of Some err \<Rightarrow> Inl err | None \<Rightarrow> Inr NoInfo)"

fun lib_request :: "nats_lib \<Rightarrow> client_call \<Rightarrow> lib_error + info" where
  "lib_request L (CallGetStream streamName) =
     answer_info StreamInfoOf (lib_StreamInfo L streamName)"
| "lib_request L (CallCreateStream cfg) = answer_info StreamInfoOf (lib_AddStream L cfg)"
| "lib_request L (CallUpdateStream cfg) = answer_info StreamInfoOf (lib_UpdateStream L cfg)"
| "lib_request L (CallDeleteStream streamName) = answer_none (lib_DeleteStream L streamName)"
| "lib_request L (CallGetConsumer streamName consumerName) =
     answer_info ConsumerInfoOf (lib_ConsumerInfo L streamName consumerName)"
| "lib_request L (CallCreateConsumer streamName cfg) =
     answer_info ConsumerInfoOf (lib_AddConsumer L streamName cfg)"
| "lib_request L (CallUpdateConsumer streamName cfg) =
     answer_info ConsumerInfoOf (lib_UpdateConsumer L streamName cfg)"
| "lib_request L (CallDeleteConsumer streamName consumerName) =
     answer_none (lib_DeleteConsumer L streamName consumerName)"

fun failure_message :: "client_call \<Rightarrow> string" where
  "failure_message (CallGetStream streamName) = ''failed to retrieve stream info''"
| "failure_message (CallCreateStream cfg) = ''failed to create stream''"
| "failure_message (CallUpdateStream cfg) = ''failed to update stream''"
| "failure_message (CallDeleteStream streamName) = ''failed to delete stream''"
| "failure_message (CallGetConsumer streamName consumerName) =
     ''failed to retrieve consumer info''"
| "failure_message (CallCreateConsumer streamName cfg) = ''failed to create consumer''"
| "failure_message (CallUpdateConsumer streamName cfg) = ''failed to update consumer''"
| "failure_message (CallDeleteConsumer streamName consumerName) = ''failed to delete consumer''"

fun is_Get :: "client_call \<Rightarrow> bool" where
  "is_Get (CallGetStream streamName) = True"
| "is_Get (CallGetConsumer streamName consumerName) = True"
| "is_Get call = False"

text \<open>The test both Get methods make on a failed request.\<close>

definition not_found_error :: "lib_error \<Rightarrow> bool" where
  "not_found_error err =
     (lib_errors_Is err ErrStreamNotFound \<or> lib_errors_Is err ErrConsumerNotFound)"







text \<open>
  The API requests the NATS client sends for a call of a JetStream context method that
  runs to its last request: one request for each call but \<open>AddConsumer\<close>. Given a
  configuration with a \<open>Name\<close> or a \<open>Durable\<close>, \<open>AddConsumer\<close> first asks for the info of the
  consumer of that name, to see whether the name is taken, and sends the create request
  after it. The NATS client is a dependency of the provider, not part of its sources: the
  function follows the client's \<open>AddConsumer\<close>, and the theorems about the provider's own
  client hold for every choice of \<open>lib_messages\<close>.
\<close>

fun nats_go_messages :: "request \<Rightarrow> api_request list" where
  "nats_go_messages (ReqStreamInfo streamName) = [ApiStreamInfo streamName]"
| "nats_go_messages (ReqAddStream cfg) = [ApiStreamCreate (sc_Name cfg)]"
| "nats_go_messages (ReqUpdateStream cfg) = [ApiStreamUpdate (sc_Name cfg)]"
| "nats_go_messages (ReqDeleteStream streamName) = [ApiStreamDelete streamName]"
| "nats_go_messages (ReqConsumerInfo streamName consumerName) =
     [ApiConsumerInfo streamName consumerName]"
| "nats_go_messages (ReqAddConsumer streamName cfg) =
     (let consumerName = (if cc_Name cfg \<noteq> [] then cc_Name cfg else cc_Durable cfg)
      in if consumerName \<noteq> []
         then [ApiConsumerInfo streamName consumerName,
               ApiConsumerCreate streamName consumerName]
         else [ApiConsumerCreate streamName consumerName])"
| "nats_go_messages (ReqUpdateConsumer streamName cfg) =
     [ApiConsumerCreate streamName
        (if cc_Name cfg \<noteq> [] then cc_Name cfg else cc_Durable cfg)]"
| "nats_go_messages (ReqDeleteConsumer streamName consumerName) =
     [ApiConsumerDelete streamName consumerName]"

text \<open>
  Library outcomes for the examples: every call succeeds and the server knows no stream
  and no consumer; the same with a server that cannot be reached; one whose JetStream
  context cannot be created; and a server that has the stream and creates every consumer
  it is asked for.
\<close>

definition empty_server :: nats_lib where
  "empty_server =
     \<lparr>lib_Connect = (\<lambda>u. None),
      lib_JetStream = None,
      lib_StreamInfo = (\<lambda>n. Inl ErrStreamNotFound),
      lib_AddStream = (\<lambda>cfg. Inr \<lparr>si_Config = cfg\<rparr>),
      lib_UpdateStream = (\<lambda>cfg. Inl ErrStreamNotFound),
      lib_DeleteStream = (\<lambda>n. Some ErrStreamNotFound),
      lib_ConsumerInfo = (\<lambda>s n. Inl (LibWrapped ''lookup'' ErrConsumerNotFound)),
      lib_AddConsumer = (\<lambda>s cfg. Inl ErrStreamNotFound),
      lib_UpdateConsumer = (\<lambda>s cfg. Inl ErrStreamNotFound),
      lib_DeleteConsumer = (\<lambda>s n. Some ErrStreamNotFound),
      lib_messages = nats_go_messages\<rparr>"

definition unreachable_server :: nats_lib where
  "unreachable_server = empty_server\<lparr>lib_Connect := (\<lambda>u. Some (LibError ''no servers''))\<rparr>"

definition no_jetstream_server :: nats_lib where
  "no_jetstream_server = empty_server\<lparr>lib_JetStream := Some (LibError ''no jetstream'')\<rparr>"


text \<open>A server that has the README's consumer, whatever the names asked for.\<close>

definition consumer_server :: nats_lib where
  "consumer_server =
     empty_server\<lparr>lib_ConsumerInfo :=
       (\<lambda>s n. Inr \<lparr>ci_Stream = s, ci_Name = n,
                    ci_Config = \<lparr>cc_Name = n, cc_Durable = n,
                      cc_DeliverPolicy = DeliverAllPolicy, cc_AckPolicy = AckExplicitPolicy,
                      cc_FilterSubjects = [''orders.created''], cc_DeliverSubject = [],
                      cc_DeliverGroup = []\<rparr>\<rparr>)\<rparr>"

definition local_client :: client where
  "local_client = NewClient ''nats://localhost:4222''"

definition initial_world :: world where
  "initial_world = \<lparr>next_conn = 0, events = []\<rparr>"

text \<open>
  An operation that starts in the environment \<open>e\<close> and ends in \<open>e'\<close> has made the single
  client call \<open>call\<close>, which left the client's world at \<open>w'\<close>.
\<close>

definition single_call :: "'w env \<Rightarrow> 'w env \<Rightarrow> client_call \<Rightarrow> 'w \<Rightarrow> bool" where
  "single_call e e' call w' = (snd e' = snd e @ [call] \<and> fst e' = w')"

section \<open>Example values\<close>

text \<open>
  A stream model as the README's example gives it, with the schema's defaults, and the
  same model with a \<open>max_msg_size\<close> of \<open>2^31\<close>, which the schema's validator accepts.
\<close>

definition orders_stream :: streamResourceModel where
  "orders_stream =
     \<lparr>sm_Name = StringValue ''orders'',
      sm_Subjects = [StringValue ''order.*''],
      sm_Storage = StringValue ''file'',
      sm_NumReplicas = Int64Value 1,
      sm_Retention = StringValue ''interest'',
      sm_Discard = StringValue ''new'',
      sm_MaxMsgs = Int64Value (- 1),
      sm_MaxConsumers = Int64Value (- 1),
      sm_MaxBytes = Int64Value (- 1),
      sm_MaxMsgsPerSubject = Int64Value (- 1),
      sm_MaxMsgSize = Int64Value (- 1),
      sm_MaxAge = Int64Value 0,
      sm_DuplicateWindow = Int64Value 120000000000,
      sm_AllowDirect = BoolValue True\<rparr>"

definition oversized_stream :: streamResourceModel where
  "oversized_stream = orders_stream\<lparr>sm_MaxMsgSize := Int64Value 2147483648\<rparr>"

text \<open>The same model with a null element in its list of subjects.\<close>

definition null_subject_stream :: streamResourceModel where
  "null_subject_stream = orders_stream\<lparr>sm_Subjects := [StringValue ''order.*'', StringNull]\<rparr>"

text \<open>The README's pull consumer, with the schema's defaults.\<close>

definition new_order_consumer :: consumerResourceModel where
  "new_order_consumer =
     \<lparr>cm_StreamName = StringValue ''orders'',
      cm_Name = StringValue ''new_order_consumer'',
      cm_Mode = StringValue ''pull'',
      cm_DeliverPolicy = StringValue ''all'',
      cm_AckPolicy = StringValue ''explicit'',
      cm_FilterSubjects = [StringValue ''orders.created''],
      cm_DeliverSubject = StringValue [],
      cm_DeliverGroup = StringValue []\<rparr>"


text \<open>A response that holds no diagnostic and no state, and one that holds a state.\<close>

definition empty_response :: "'m Response" where
  "empty_response = \<lparr>Diagnostics = [], State = None\<rparr>"

definition prior_response :: "'m \<Rightarrow> 'm Response" where
  "prior_response m = \<lparr>Diagnostics = [], State = Some m\<rparr>"

definition empty_import :: ImportStateResponse where
  "empty_import = \<lparr>imp_Diagnostics = [], imp_State = []\<rparr>"

section \<open>Properties of the string-enum mappings\<close>

subsection \<open>Inverting an injective map\<close>

lemmas enum_defs =
  FileStorage_def MemoryStorage_def DiscardOld_def DiscardNew_def
  LimitsPolicy_def InterestPolicy_def WorkQueuePolicy_def
  AckNonePolicy_def AckAllPolicy_def AckExplicitPolicy_def
  DeliverAllPolicy_def DeliverLastPolicy_def DeliverNewPolicy_def

lemma fold_store_untouched:
  "v \<notin> snd ` set xs \<Longrightarrow> fold (\<lambda>(k, v) out. out(v \<mapsto> k)) xs m v = m v"
  by (induction xs arbitrary: m) (auto split: prod.splits)

lemma fold_store_found:
  "distinct (map snd xs) \<Longrightarrow> (k, v) \<in> set xs
     \<Longrightarrow> fold (\<lambda>(k, v) out. out(v \<mapsto> k)) xs m v = Some k"
proof (induction xs arbitrary: m)
  case Nil
  then show ?case by simp
next
  case (Cons p xs)
  obtain a b where p: "p = (a, b)" by (cases p)
  show ?case
  proof (cases "(k, v) = (a, b)")
    case True
    with Cons.prems p have "v \<notin> snd ` set xs" by auto
    then have "fold (\<lambda>(k, v) out. out(v \<mapsto> k)) xs (m(b \<mapsto> a)) v = (m(b \<mapsto> a)) v"
      by (rule fold_store_untouched)
    also have "\<dots> = Some k" using True by simp
    finally show ?thesis using p by (simp del: fun_upd_apply)
  next
    case False
    with Cons.prems p have "(k, v) \<in> set xs" "distinct (map snd xs)" by auto
    then show ?thesis using Cons.IH p by (simp del: fun_upd_apply)
  qed
qed

lemma invertMap_Some:
  "distinct (map snd m) \<Longrightarrow> (k, v) \<in> set m \<Longrightarrow> invertMap m v = Some k"
  by (simp add: invertMap_def fold_store_found)

lemma mapFn_round_trip_key:
  assumes "distinct (map snd m)" and "k \<in> dom (map_of m)"
  shows "mapFn z' (invertMap m) (mapFn z (map_of m) k) = k"
proof -
  from assms(2) obtain v where v: "map_of m k = Some v" by auto
  then have "(k, v) \<in> set m" by (rule map_of_SomeD)
  with assms(1) have "invertMap m v = Some k" by (rule invertMap_Some)
  then show ?thesis using v by (simp add: mapFn_def)
qed

lemma mapFn_round_trip_val:
  assumes "distinct (map snd m)" and "c \<in> ran (map_of m)"
  shows "mapFn z (map_of m) (mapFn z' (invertMap m) c) = c"
proof -
  from assms(2) obtain k where k: "map_of m k = Some c" by (auto simp: ran_def)
  then have "(k, c) \<in> set m" by (rule map_of_SomeD)
  with assms(1) have "invertMap m c = Some k" by (rule invertMap_Some)
  then show ?thesis using k by (simp add: mapFn_def)
qed

lemma mapFn_missing: "k \<notin> dom (map_of m) \<Longrightarrow> mapFn z (map_of m) k = z"
  by (simp add: mapFn_def domIff)

subsection \<open>The five literals\<close>

lemma storageType_injective: "distinct (map snd storageType)"
  by (simp add: storageType_def enum_defs)

lemma discardPolicy_injective: "distinct (map snd discardPolicy)"
  by (simp add: discardPolicy_def enum_defs)

lemma retentionPolicy_injective: "distinct (map snd retentionPolicy)"
  by (simp add: retentionPolicy_def enum_defs)

lemma ackPolicy_injective: "distinct (map snd ackPolicy)"
  by (simp add: ackPolicy_def enum_defs)

lemma deliverPolicy_injective: "distinct (map snd deliverPolicy)"
  by (simp add: deliverPolicy_def enum_defs)

lemma dom_storageType: "s \<in> dom (map_of storageType) \<longleftrightarrow> s = ''file'' \<or> s = ''memory''"
  by (simp add: storageType_def dom_def)

lemma dom_discardPolicy: "s \<in> dom (map_of discardPolicy) \<longleftrightarrow> s = ''old'' \<or> s = ''new''"
  by (simp add: discardPolicy_def dom_def)

lemma dom_retentionPolicy:
  "s \<in> dom (map_of retentionPolicy) \<longleftrightarrow> s = ''limits'' \<or> s = ''interest'' \<or> s = ''work''"
  by (simp add: retentionPolicy_def dom_def)

lemma dom_ackPolicy:
  "s \<in> dom (map_of ackPolicy) \<longleftrightarrow> s = ''none'' \<or> s = ''all'' \<or> s = ''explicit''"
  by (simp add: ackPolicy_def dom_def)

lemma dom_deliverPolicy:
  "s \<in> dom (map_of deliverPolicy) \<longleftrightarrow> s = ''all'' \<or> s = ''new'' \<or> s = ''last''"
  by (simp add: deliverPolicy_def dom_def)

lemma storage_round_trip:
  "(\<forall>s \<in> dom (map_of storageType). FromStorageType (ToStorageType s) = s)
   \<and> (\<forall>c \<in> ran (map_of storageType). ToStorageType (FromStorageType c) = c)"
  unfolding ToStorageType_def FromStorageType_def invertedStorageType_def
  using mapFn_round_trip_key[OF storageType_injective]
    mapFn_round_trip_val[OF storageType_injective]
  by blast

lemma discard_round_trip:
  "(\<forall>s \<in> dom (map_of discardPolicy). FromDiscardPolicy (ToDiscardPolicy s) = s)
   \<and> (\<forall>c \<in> ran (map_of discardPolicy). ToDiscardPolicy (FromDiscardPolicy c) = c)"
  unfolding ToDiscardPolicy_def FromDiscardPolicy_def invertedDiscardPolicy_def
  using mapFn_round_trip_key[OF discardPolicy_injective]
    mapFn_round_trip_val[OF discardPolicy_injective]
  by blast

lemma retention_round_trip:
  "(\<forall>s \<in> dom (map_of retentionPolicy). FromRetentionPolicy (ToRetentionPolicy s) = s)
   \<and> (\<forall>c \<in> ran (map_of retentionPolicy). ToRetentionPolicy (FromRetentionPolicy c) = c)"
  unfolding ToRetentionPolicy_def FromRetentionPolicy_def invertedRetentionPolicy_def
  using mapFn_round_trip_key[OF retentionPolicy_injective]
    mapFn_round_trip_val[OF retentionPolicy_injective]
  by blast

lemma ack_round_trip:
  "(\<forall>s \<in> dom (map_of ackPolicy). FromAckPolicy (ToAckPolicy s) = s)
   \<and> (\<forall>c \<in> ran (map_of ackPolicy). ToAckPolicy (FromAckPolicy c) = c)"
  unfolding ToAckPolicy_def FromAckPolicy_def invertedAckPolicy_def
  using mapFn_round_trip_key[OF ackPolicy_injective]
    mapFn_round_trip_val[OF ackPolicy_injective]
  by blast

lemma deliver_round_trip:
  "(\<forall>s \<in> dom (map_of deliverPolicy). FromDeliverPolicy (ToDeliverPolicy s) = s)
   \<and> (\<forall>c \<in> ran (map_of deliverPolicy). ToDeliverPolicy (FromDeliverPolicy c) = c)"
  unfolding ToDeliverPolicy_def FromDeliverPolicy_def invertedDeliverPolicy_def
  using mapFn_round_trip_key[OF deliverPolicy_injective]
    mapFn_round_trip_val[OF deliverPolicy_injective]
  by blast

text \<open>
  Claim C2. Each of the five mappings (storage type, discard policy, retention policy,
  ack policy, deliver policy) is bidirectional: for every string in the domain of the
  map literal, the To-function followed by the From-function returns the string, and
  for every enum constant in its range, the From-function followed by the To-function
  returns the constant.
\<close>

theorem enum_mappings_bidirectional:
  "((\<forall>s \<in> dom (map_of storageType). FromStorageType (ToStorageType s) = s)
    \<and> (\<forall>c \<in> ran (map_of storageType). ToStorageType (FromStorageType c) = c))
   \<and> ((\<forall>s \<in> dom (map_of discardPolicy). FromDiscardPolicy (ToDiscardPolicy s) = s)
    \<and> (\<forall>c \<in> ran (map_of discardPolicy). ToDiscardPolicy (FromDiscardPolicy c) = c))
   \<and> ((\<forall>s \<in> dom (map_of retentionPolicy). FromRetentionPolicy (ToRetentionPolicy s) = s)
    \<and> (\<forall>c \<in> ran (map_of retentionPolicy). ToRetentionPolicy (FromRetentionPolicy c) = c))
   \<and> ((\<forall>s \<in> dom (map_of ackPolicy). FromAckPolicy (ToAckPolicy s) = s)
    \<and> (\<forall>c \<in> ran (map_of ackPolicy). ToAckPolicy (FromAckPolicy c) = c))
   \<and> ((\<forall>s \<in> dom (map_of deliverPolicy). FromDeliverPolicy (ToDeliverPolicy s) = s)
    \<and> (\<forall>c \<in> ran (map_of deliverPolicy). ToDeliverPolicy (FromDeliverPolicy c) = c))"
  by (intro conjI storage_round_trip discard_round_trip retention_round_trip
        ack_round_trip deliver_round_trip)

theorem enum_mappings_bidirectional_witness:
  "FromStorageType (ToStorageType ''memory'') = ''memory''
   \<and> ToDiscardPolicy (FromDiscardPolicy DiscardNew) = DiscardNew
   \<and> FromRetentionPolicy (ToRetentionPolicy ''limits'') = ''limits''
   \<and> ToRetentionPolicy (FromRetentionPolicy WorkQueuePolicy) = WorkQueuePolicy
   \<and> FromAckPolicy (ToAckPolicy ''explicit'') = ''explicit''
   \<and> ToDeliverPolicy (FromDeliverPolicy DeliverLastPolicy) = DeliverLastPolicy"
proof -
  have "''memory'' \<in> dom (map_of storageType)" by (simp add: dom_storageType)
  moreover have "DiscardNew \<in> ran (map_of discardPolicy)"
    by (rule ranI[of _ "''new''"]) (simp add: discardPolicy_def)
  moreover have "''limits'' \<in> dom (map_of retentionPolicy)" by (simp add: dom_retentionPolicy)
  moreover have "WorkQueuePolicy \<in> ran (map_of retentionPolicy)"
    by (rule ranI[of _ "''work''"]) (simp add: retentionPolicy_def)
  moreover have "''explicit'' \<in> dom (map_of ackPolicy)" by (simp add: dom_ackPolicy)
  moreover have "DeliverLastPolicy \<in> ran (map_of deliverPolicy)"
    by (rule ranI[of _ "''last''"]) (simp add: deliverPolicy_def)
  ultimately show ?thesis using enum_mappings_bidirectional by blast
qed

text \<open>
  Claim C9. A string outside a mapping's domain is mapped to the zero value of the enum
  type, which is the constant \<open>FileStorage\<close>, \<open>DiscardOld\<close>, \<open>LimitsPolicy\<close>,
  \<open>AckNonePolicy\<close> or \<open>DeliverAllPolicy\<close>. A To-function returns a bare enum value: what it
  returns for such a string is what it returns for a valid one, so the caller cannot see
  that the input was invalid.
\<close>

theorem unknown_enum_strings_map_to_zero:
  "(s \<notin> dom (map_of storageType)
      \<longrightarrow> ToStorageType s = FileStorage \<and> ToStorageType s = ToStorageType ''file'')
   \<and> (s \<notin> dom (map_of discardPolicy)
      \<longrightarrow> ToDiscardPolicy s = DiscardOld \<and> ToDiscardPolicy s = ToDiscardPolicy ''old'')
   \<and> (s \<notin> dom (map_of retentionPolicy)
      \<longrightarrow> ToRetentionPolicy s = LimitsPolicy \<and> ToRetentionPolicy s = ToRetentionPolicy ''limits'')
   \<and> (s \<notin> dom (map_of ackPolicy)
      \<longrightarrow> ToAckPolicy s = AckNonePolicy \<and> ToAckPolicy s = ToAckPolicy ''none'')
   \<and> (s \<notin> dom (map_of deliverPolicy)
      \<longrightarrow> ToDeliverPolicy s = DeliverAllPolicy \<and> ToDeliverPolicy s = ToDeliverPolicy ''all'')"
proof -
  have "ToStorageType ''file'' = FileStorage"
    by (simp add: ToStorageType_def mapFn_def storageType_def)
  moreover have "ToDiscardPolicy ''old'' = DiscardOld"
    by (simp add: ToDiscardPolicy_def mapFn_def discardPolicy_def)
  moreover have "ToRetentionPolicy ''limits'' = LimitsPolicy"
    by (simp add: ToRetentionPolicy_def mapFn_def retentionPolicy_def)
  moreover have "ToAckPolicy ''none'' = AckNonePolicy"
    by (simp add: ToAckPolicy_def mapFn_def ackPolicy_def)
  moreover have "ToDeliverPolicy ''all'' = DeliverAllPolicy"
    by (simp add: ToDeliverPolicy_def mapFn_def deliverPolicy_def)
  ultimately show ?thesis
    unfolding ToStorageType_def ToDiscardPolicy_def ToRetentionPolicy_def ToAckPolicy_def
      ToDeliverPolicy_def
    by (simp add: mapFn_missing enum_defs)
qed

theorem unknown_enum_strings_map_to_zero_witness:
  "ToStorageType ''disk'' = FileStorage
   \<and> ToDiscardPolicy ''disk'' = DiscardOld
   \<and> ToRetentionPolicy ''disk'' = LimitsPolicy
   \<and> ToAckPolicy ''disk'' = AckNonePolicy
   \<and> ToDeliverPolicy ''disk'' = DeliverAllPolicy"
proof -
  have "''disk'' \<notin> dom (map_of storageType)" by (simp add: dom_storageType)
  moreover have "''disk'' \<notin> dom (map_of discardPolicy)" by (simp add: dom_discardPolicy)
  moreover have "''disk'' \<notin> dom (map_of retentionPolicy)" by (simp add: dom_retentionPolicy)
  moreover have "''disk'' \<notin> dom (map_of ackPolicy)" by (simp add: dom_ackPolicy)
  moreover have "''disk'' \<notin> dom (map_of deliverPolicy)" by (simp add: dom_deliverPolicy)
  ultimately show ?thesis using unknown_enum_strings_map_to_zero[of "''disk''"] by blast
qed

section \<open>Properties of the validators and conversions\<close>

subsection \<open>Range checks\<close>

lemma infinityOrPositive_iff:
  "infinityOrPositiveInt64Validator v \<longleftrightarrow> v = - 1 \<or> 1 \<le> sint v"
  by (simp add: infinityOrPositiveInt64Validator_def int64validator_Any_def
      int64validator_OneOf_def int64validator_AtLeast_def)

lemma num_replicas_iff:
  "validate_Int64 streamResource_Schema ''num_replicas'' (Int64Value v)
     \<longleftrightarrow> 1 \<le> sint v \<and> sint v \<le> 5"
  by (simp add: streamResource_Schema_def int64validator_Between_def)

lemma max_age_iff:
  "validate_Int64 streamResource_Schema ''max_age'' (Int64Value v) \<longleftrightarrow> 0 \<le> sint v"
  by (simp add: streamResource_Schema_def int64validator_AtLeast_def)

lemma limit_attributes_iff:
  "validate_Int64 streamResource_Schema ''max_msgs'' (Int64Value v)
     = infinityOrPositiveInt64Validator v"
  "validate_Int64 streamResource_Schema ''max_consumers'' (Int64Value v)
     = infinityOrPositiveInt64Validator v"
  "validate_Int64 streamResource_Schema ''max_bytes'' (Int64Value v)
     = infinityOrPositiveInt64Validator v"
  "validate_Int64 streamResource_Schema ''max_msgs_per_subject'' (Int64Value v)
     = infinityOrPositiveInt64Validator v"
  "validate_Int64 streamResource_Schema ''max_msg_size'' (Int64Value v)
     = infinityOrPositiveInt64Validator v"
  "validate_Int64 streamResource_Schema ''duplicate_window'' (Int64Value v)
     = infinityOrPositiveInt64Validator v"
  by (simp_all add: streamResource_Schema_def)

lemma sint_minus_one_iff: "sint (v :: int64) = - 1 \<longleftrightarrow> v = - 1"
proof
  assume "sint v = - 1"
  then have "sint v = sint (- 1 :: int64)" by simp
  then show "v = - 1" by (rule signed_word_eqI)
qed simp

text \<open>
  Claim C7. An int64 value \<open>v\<close> is accepted by \<open>infinityOrPositiveInt64Validator\<close> exactly
  when it is \<open>-1\<close> or at least \<open>1\<close> as a signed integer, so \<open>0\<close> and every value below
  \<open>-1\<close> are rejected. The stream schema accepts a \<open>num_replicas\<close> of \<open>v\<close> exactly when
  \<open>1 \<le> v \<le> 5\<close>, and a \<open>max_age\<close> of \<open>v\<close> exactly when \<open>v \<ge> 0\<close>.
\<close>

theorem range_check_validators:
  "(infinityOrPositiveInt64Validator v \<longleftrightarrow> sint v = - 1 \<or> 1 \<le> sint v)
   \<and> \<not> infinityOrPositiveInt64Validator 0
   \<and> (infinityOrPositiveInt64Validator v \<or> sint v = 0 \<or> sint v < - 1)
   \<and> (validate_Int64 streamResource_Schema ''num_replicas'' (Int64Value v)
        \<longleftrightarrow> 1 \<le> sint v \<and> sint v \<le> 5)
   \<and> (validate_Int64 streamResource_Schema ''max_age'' (Int64Value v) \<longleftrightarrow> 0 \<le> sint v)"
proof -
  have accept: "infinityOrPositiveInt64Validator v \<longleftrightarrow> sint v = - 1 \<or> 1 \<le> sint v"
    by (simp add: infinityOrPositive_iff sint_minus_one_iff)
  have zero: "\<not> infinityOrPositiveInt64Validator 0"
    by (simp add: infinityOrPositive_iff)
  have rest: "infinityOrPositiveInt64Validator v \<or> sint v = 0 \<or> sint v < - 1"
    unfolding accept by linarith
  show ?thesis
    using accept zero rest num_replicas_iff[of v] max_age_iff[of v] by blast
qed

theorem range_check_validators_witness:
  "infinityOrPositiveInt64Validator (- 1)
   \<and> infinityOrPositiveInt64Validator 120000000000
   \<and> \<not> infinityOrPositiveInt64Validator (- 2)
   \<and> validate_Int64 streamResource_Schema ''num_replicas'' (Int64Value 5)
   \<and> \<not> validate_Int64 streamResource_Schema ''num_replicas'' (Int64Value 6)
   \<and> \<not> validate_Int64 streamResource_Schema ''max_age'' (Int64Value (- 1))"
  using range_check_validators[of "- 1"] range_check_validators[of 120000000000]
    range_check_validators[of "- 2"] range_check_validators[of 5]
    range_check_validators[of 6]
  by simp

subsection \<open>Slices and integer conversions\<close>

lemma convertSlice_acc: "fold (\<lambda>elem out. out @ [fn elem]) xs acc = acc @ map fn xs"
  by (induction xs arbitrary: acc) simp_all

lemma convertSlice_map: "convertSlice xs fn = map fn xs"
  by (simp add: convertSlice_def convertSlice_acc)

lemma known_String_value: "known_String x \<Longrightarrow> StringValue (ValueString x) = x"
  by (cases x) simp_all

lemma known_Int64_value: "known_Int64 x \<Longrightarrow> Int64Value (ValueInt64 x) = x"
  by (cases x) simp_all

lemma known_Bool_value: "known_Bool x \<Longrightarrow> BoolValue (ValueBool x) = x"
  by (cases x) simp_all

lemma known_Strings_value:
  "list_all known_String xs \<Longrightarrow> convertSlice (convertSlice xs ValueString) StringValue = xs"
  by (induction xs) (simp_all add: convertSlice_map known_String_value)

lemma int_round_trip: "int64_of_int (int_of_int64 v) = v"
  by (simp add: int64_of_int_def int_of_int64_def)

lemma int32_round_trip:
  fixes v :: int64
  assumes "- (2 ^ 31) \<le> sint v" and "sint v < 2 ^ 31"
  shows "int64_of_int32 (int32_of_int64 v) = v"
proof -
  have low: "sint (ucast v :: int32) = signed_take_bit 31 (uint v)"
    by (simp add: signed_ucast_eq)
  have "signed_take_bit 31 (uint v) = signed_take_bit 31 (sint v)"
    by (simp add: signed_take_bit_eq_iff_take_bit_eq sint_uint take_bit_signed_take_bit)
  also have "\<dots> = sint v"
    using assms by (simp add: signed_take_bit_int_eq_self)
  finally have narrowed: "sint (ucast v :: int32) = sint v" using low by simp
  have "sint (scast (ucast v :: int32) :: int64) = sint (ucast v :: int32)"
    by (rule sint_up_scast) (simp add: is_up)
  with narrowed have "sint (scast (ucast v :: int32) :: int64) = sint v" by simp
  then have "scast (ucast v :: int32) = v" by (rule signed_word_eqI)
  then show ?thesis by (simp only: int64_of_int32_def int32_of_int64_def)
qed

subsection \<open>The stream model and its configuration\<close>

lemma storage_valid_round_trip:
  assumes "known_String x" and "validate_String streamResource_Schema ''storage'' x"
  shows "StringValue (FromStorageType (ToStorageType (ValueString x))) = x"
proof -
  from assms(1) obtain s where x: "x = StringValue s" by (cases x) simp_all
  with assms(2) have "s \<in> dom (map_of storageType)"
    by (simp add: streamResource_Schema_def stringvalidator_OneOf_def dom_storageType)
  then show ?thesis using storage_round_trip x by simp
qed

lemma retention_valid_round_trip:
  assumes "known_String x" and "validate_String streamResource_Schema ''retention'' x"
  shows "StringValue (FromRetentionPolicy (ToRetentionPolicy (ValueString x))) = x"
proof -
  from assms(1) obtain s where x: "x = StringValue s" by (cases x) simp_all
  with assms(2) have "s \<in> dom (map_of retentionPolicy)"
    by (simp add: streamResource_Schema_def stringvalidator_OneOf_def dom_retentionPolicy)
  then show ?thesis using retention_round_trip x by simp
qed

lemma discard_valid_round_trip:
  assumes "known_String x" and "validate_String streamResource_Schema ''discard'' x"
  shows "StringValue (FromDiscardPolicy (ToDiscardPolicy (ValueString x))) = x"
proof -
  from assms(1) obtain s where x: "x = StringValue s" by (cases x) simp_all
  with assms(2) have "s \<in> dom (map_of discardPolicy)"
    by (simp add: streamResource_Schema_def stringvalidator_OneOf_def dom_discardPolicy)
  then show ?thesis using discard_round_trip x by simp
qed

lemma max_msg_size_valid_round_trip:
  assumes "known_Int64 x"
    and "validate_Int64 streamResource_Schema ''max_msg_size'' x"
    and "sint (ValueInt64 x) \<le> 2147483647"
  shows "Int64Value (int64_of_int32 (int32_of_int64 (ValueInt64 x))) = x"
proof -
  from assms(1) obtain v where x: "x = Int64Value v" by (cases x) simp_all
  from assms(2) have "validate_Int64 streamResource_Schema ''max_msg_size'' (Int64Value v)"
    unfolding x .
  then have "v = - 1 \<or> 1 \<le> sint v"
    by (simp only: limit_attributes_iff infinityOrPositive_iff)
  then have "- (2 ^ 31) \<le> sint v" by auto
  moreover from assms(3) x have "sint v < 2 ^ 31" by simp
  ultimately have "int64_of_int32 (int32_of_int64 v) = v" by (rule int32_round_trip)
  then show ?thesis using x by simp
qed

lemma orders_stream_valid: "stream_validators_pass orders_stream"
  by (simp add: stream_validators_pass_def orders_stream_def streamResource_Schema_def
      stringvalidator_OneOf_def infinityOrPositive_iff int64validator_Between_def
      int64validator_AtLeast_def)

lemma orders_stream_known: "stream_model_known orders_stream"
  by (simp add: stream_model_known_def orders_stream_def)

text \<open>
  Claim C1, as stated: every model that passes the stream schema's validators is the
  image of its own configuration under \<open>fromStreamInfo\<close>. The statement fails twice.
  \<open>oversized_stream\<close> passes the validators and holds known values only, but
  \<open>toStreamConfig\<close> narrows its \<open>max_msg_size\<close> of \<open>2147483648\<close> to the \<open>int32\<close> value
  \<open>-2147483648\<close>, which \<open>fromStreamInfo\<close> reads back. \<open>null_subject_stream\<close> passes the
  validators too; \<open>ValueString\<close> reads its null subject as the empty string, which comes
  back as a known value.
\<close>

theorem stream_round_trip_counterexample:
  "stream_validators_pass oversized_stream
   \<and> stream_model_known oversized_stream
   \<and> sm_MaxMsgSize (fromStreamInfo \<lparr>si_Config = toStreamConfig oversized_stream\<rparr>)
       = Int64Value (- 2147483648)
   \<and> fromStreamInfo \<lparr>si_Config = toStreamConfig oversized_stream\<rparr> \<noteq> oversized_stream
   \<and> stream_validators_pass null_subject_stream
   \<and> sm_Subjects (fromStreamInfo \<lparr>si_Config = toStreamConfig null_subject_stream\<rparr>)
       = [StringValue ''order.*'', StringValue []]
   \<and> fromStreamInfo \<lparr>si_Config = toStreamConfig null_subject_stream\<rparr>
       \<noteq> null_subject_stream"
proof -
  have "validate_Int64 streamResource_Schema ''max_msg_size'' (Int64Value 2147483648)"
    by (simp only: limit_attributes_iff infinityOrPositive_iff) simp
  then have valid: "stream_validators_pass oversized_stream"
    using orders_stream_valid
    by (simp add: stream_validators_pass_def oversized_stream_def)
  have known: "stream_model_known oversized_stream"
    using orders_stream_known by (simp add: stream_model_known_def oversized_stream_def)
  have narrowed: "sm_MaxMsgSize (fromStreamInfo \<lparr>si_Config = toStreamConfig oversized_stream\<rparr>)
      = Int64Value (- 2147483648)"
    by (simp add: fromStreamInfo_def toStreamConfig_def oversized_stream_def
        int64_of_int32_def int32_of_int64_def)
  have "sm_MaxMsgSize oversized_stream = Int64Value 2147483648"
    by (simp add: oversized_stream_def)
  with narrowed have changed: "fromStreamInfo \<lparr>si_Config = toStreamConfig oversized_stream\<rparr>
      \<noteq> oversized_stream"
    by auto
  have valid': "stream_validators_pass null_subject_stream"
    using orders_stream_valid
    by (simp add: stream_validators_pass_def null_subject_stream_def)
  have subjects: "sm_Subjects (fromStreamInfo \<lparr>si_Config = toStreamConfig null_subject_stream\<rparr>)
      = [StringValue ''order.*'', StringValue []]"
    by (simp add: fromStreamInfo_def toStreamConfig_def null_subject_stream_def
        convertSlice_map)
  have "sm_Subjects null_subject_stream = [StringValue ''order.*'', StringNull]"
    by (simp add: null_subject_stream_def)
  with subjects have changed': "fromStreamInfo \<lparr>si_Config = toStreamConfig null_subject_stream\<rparr>
      \<noteq> null_subject_stream"
    by auto
  from valid known narrowed changed valid' subjects changed' show ?thesis
    by (intro conjI)
qed

text \<open>
  Claim C1, amended. For every stream model whose attributes all hold known values, that
  passes the stream schema's validators and whose \<open>max_msg_size\<close> is at most
  \<open>2147483647\<close>, converting it with \<open>toStreamConfig\<close> and mapping a \<open>StreamInfo\<close> whose
  \<open>Config\<close> is that configuration back with \<open>fromStreamInfo\<close> yields the original model,
  every field unchanged.
\<close>

theorem stream_round_trip:
  assumes valid: "stream_validators_pass m"
    and known: "stream_model_known m"
    and fits: "sint (ValueInt64 (sm_MaxMsgSize m)) \<le> 2147483647"
    and info: "si_Config info = toStreamConfig m"
  shows "fromStreamInfo info = m"
proof (rule streamResourceModel.equality)
  show "sm_Name (fromStreamInfo info) = sm_Name m"
    using known by (simp add: fromStreamInfo_def info toStreamConfig_def
        stream_model_known_def known_String_value)
  show "sm_Subjects (fromStreamInfo info) = sm_Subjects m"
    using known by (simp add: fromStreamInfo_def info toStreamConfig_def
        stream_model_known_def known_Strings_value)
  show "sm_Storage (fromStreamInfo info) = sm_Storage m"
    using known valid by (simp add: fromStreamInfo_def info toStreamConfig_def
        stream_model_known_def stream_validators_pass_def storage_valid_round_trip)
  show "sm_NumReplicas (fromStreamInfo info) = sm_NumReplicas m"
    using known by (simp add: fromStreamInfo_def info toStreamConfig_def
        stream_model_known_def int_round_trip known_Int64_value)
  show "sm_Retention (fromStreamInfo info) = sm_Retention m"
    using known valid by (simp add: fromStreamInfo_def info toStreamConfig_def
        stream_model_known_def stream_validators_pass_def retention_valid_round_trip)
  show "sm_Discard (fromStreamInfo info) = sm_Discard m"
    using known valid by (simp add: fromStreamInfo_def info toStreamConfig_def
        stream_model_known_def stream_validators_pass_def discard_valid_round_trip)
  show "sm_MaxMsgs (fromStreamInfo info) = sm_MaxMsgs m"
    using known by (simp add: fromStreamInfo_def info toStreamConfig_def
        stream_model_known_def known_Int64_value)
  show "sm_MaxConsumers (fromStreamInfo info) = sm_MaxConsumers m"
    using known by (simp add: fromStreamInfo_def info toStreamConfig_def
        stream_model_known_def int_round_trip known_Int64_value)
  show "sm_MaxBytes (fromStreamInfo info) = sm_MaxBytes m"
    using known by (simp add: fromStreamInfo_def info toStreamConfig_def
        stream_model_known_def known_Int64_value)
  show "sm_MaxMsgsPerSubject (fromStreamInfo info) = sm_MaxMsgsPerSubject m"
    using known by (simp add: fromStreamInfo_def info toStreamConfig_def
        stream_model_known_def known_Int64_value)
  show "sm_MaxMsgSize (fromStreamInfo info) = sm_MaxMsgSize m"
    using known valid fits by (simp add: fromStreamInfo_def info toStreamConfig_def
        stream_model_known_def stream_validators_pass_def max_msg_size_valid_round_trip)
  show "sm_MaxAge (fromStreamInfo info) = sm_MaxAge m"
    using known by (simp add: fromStreamInfo_def info toStreamConfig_def
        stream_model_known_def known_Int64_value)
  show "sm_DuplicateWindow (fromStreamInfo info) = sm_DuplicateWindow m"
    using known by (simp add: fromStreamInfo_def info toStreamConfig_def
        stream_model_known_def known_Int64_value)
  show "sm_AllowDirect (fromStreamInfo info) = sm_AllowDirect m"
    using known by (simp add: fromStreamInfo_def info toStreamConfig_def
        stream_model_known_def known_Bool_value)
  show "streamResourceModel.more (fromStreamInfo info) = streamResourceModel.more m"
    by simp
qed

theorem stream_round_trip_witness:
  "stream_validators_pass orders_stream
   \<and> stream_model_known orders_stream
   \<and> sint (ValueInt64 (sm_MaxMsgSize orders_stream)) \<le> 2147483647
   \<and> fromStreamInfo \<lparr>si_Config = toStreamConfig orders_stream\<rparr> = orders_stream"
proof -
  have fits: "sint (ValueInt64 (sm_MaxMsgSize orders_stream)) \<le> 2147483647"
    by (simp add: orders_stream_def)
  have "si_Config \<lparr>si_Config = toStreamConfig orders_stream\<rparr> = toStreamConfig orders_stream"
    by simp
  with orders_stream_valid orders_stream_known fits
  have "fromStreamInfo \<lparr>si_Config = toStreamConfig orders_stream\<rparr> = orders_stream"
    by (rule stream_round_trip)
  with orders_stream_valid orders_stream_known fits show ?thesis by simp
qed

subsection \<open>The consumer model and its configuration\<close>

text \<open>
  Claim C3. \<open>toConsumerConfig\<close> returns an error exactly when the mode is \<open>pull\<close> and
  \<open>deliver_subject\<close> is a non-empty string, or the mode is \<open>push\<close> and \<open>deliver_subject\<close>
  is the empty string. In every other case it returns no error and a configuration whose
  \<open>Name\<close> and \<open>Durable\<close> are the model's name and whose other fields are the model's
  fields, mapped.
\<close>

theorem toConsumerConfig_mode_check:
  "(snd (toConsumerConfig data) \<noteq> None
      \<longleftrightarrow> (ValueString (cm_Mode data) = ''pull'' \<and> ValueString (cm_DeliverSubject data) \<noteq> [])
          \<or> (ValueString (cm_Mode data) = ''push'' \<and> ValueString (cm_DeliverSubject data) = []))
   \<and> (snd (toConsumerConfig data) = None \<longrightarrow>
         cc_Name (fst (toConsumerConfig data)) = ValueString (cm_Name data)
       \<and> cc_Durable (fst (toConsumerConfig data)) = ValueString (cm_Name data)
       \<and> cc_DeliverPolicy (fst (toConsumerConfig data))
           = ToDeliverPolicy (ValueString (cm_DeliverPolicy data))
       \<and> cc_AckPolicy (fst (toConsumerConfig data))
           = ToAckPolicy (ValueString (cm_AckPolicy data))
       \<and> cc_FilterSubjects (fst (toConsumerConfig data))
           = map ValueString (cm_FilterSubjects data)
       \<and> cc_DeliverSubject (fst (toConsumerConfig data)) = ValueString (cm_DeliverSubject data)
       \<and> cc_DeliverGroup (fst (toConsumerConfig data)) = ValueString (cm_DeliverGroup data))"
proof (cases "validateMode data")
  case None
  then have "\<not> ((ValueString (cm_Mode data) = ''pull'' \<and> ValueString (cm_DeliverSubject data) \<noteq> [])
          \<or> (ValueString (cm_Mode data) = ''push'' \<and> ValueString (cm_DeliverSubject data) = []))"
    by (auto simp: validateMode_def split: if_splits)
  with None show ?thesis
    by (simp add: toConsumerConfig_def convertSlice_map)
next
  case (Some err)
  then have "(ValueString (cm_Mode data) = ''pull'' \<and> ValueString (cm_DeliverSubject data) \<noteq> [])
          \<or> (ValueString (cm_Mode data) = ''push'' \<and> ValueString (cm_DeliverSubject data) = [])"
    by (auto simp: validateMode_def split: if_splits)
  with Some show ?thesis
    by (simp add: toConsumerConfig_def)
qed

theorem toConsumerConfig_mode_check_witness:
  "snd (toConsumerConfig new_order_consumer) = None
   \<and> cc_Name (fst (toConsumerConfig new_order_consumer)) = ''new_order_consumer''
   \<and> cc_Durable (fst (toConsumerConfig new_order_consumer)) = ''new_order_consumer''
   \<and> cc_AckPolicy (fst (toConsumerConfig new_order_consumer)) = ToAckPolicy ''explicit''
   \<and> cc_FilterSubjects (fst (toConsumerConfig new_order_consumer)) = [''orders.created'']
   \<and> snd (toConsumerConfig (new_order_consumer\<lparr>cm_Mode := StringValue ''push''\<rparr>)) \<noteq> None
   \<and> snd (toConsumerConfig (new_order_consumer\<lparr>cm_DeliverSubject := StringValue ''out''\<rparr>))
        \<noteq> None"
  using toConsumerConfig_mode_check[of new_order_consumer]
    toConsumerConfig_mode_check[of "new_order_consumer\<lparr>cm_Mode := StringValue ''push''\<rparr>"]
    toConsumerConfig_mode_check[of
      "new_order_consumer\<lparr>cm_DeliverSubject := StringValue ''out''\<rparr>"]
  by (simp add: new_order_consumer_def)

section \<open>Properties of the client\<close>

subsection \<open>The four ways through a method\<close>

lemmas client_method_defs =
  GetStream_def CreateStream_def UpdateStream_def DeleteStream_def
  GetConsumer_def CreateConsumer_def UpdateConsumer_def DeleteConsumer_def

lemmas library_call_defs =
  nats_Connect_def nc_JetStream_def nc_Close_def log_event_def log_call_def
  js_StreamInfo_def js_AddStream_def js_UpdateStream_def js_DeleteStream_def
  js_ConsumerInfo_def js_AddConsumer_def js_UpdateConsumer_def js_DeleteConsumer_def

lemma run_call_connect_failed:
  assumes "lib_Connect L (url c) = Some e"
  shows "run_call L c call w =
    ((zero_info call, Some (Wrapf ''failed to connect to nats'' e)),
     w\<lparr>events := events w @ [EvConnect (url c) None]\<rparr>)"
  using assms by (cases call) (simp_all add: client_method_defs library_call_defs)

lemma run_call_jetstream_failed:
  assumes "lib_Connect L (url c) = None" and "lib_JetStream L = Some e"
  shows "run_call L c call w =
    ((zero_info call, Some (Wrapf ''failed to create a jetstream context'' e)),
     w\<lparr>next_conn := Suc (next_conn w),
       events := events w @ [EvConnect (url c) (Some (next_conn w)),
         EvJetStream (next_conn w), EvClose (next_conn w)]\<rparr>)"
  using assms by (cases call) (simp_all add: client_method_defs library_call_defs)

lemma run_call_request_failed:
  assumes "lib_Connect L (url c) = None" and "lib_JetStream L = None"
    and "lib_request L call = Inl e"
  shows "run_call L c call w =
    ((zero_info call,
      Some (if is_Get call \<and> not_found_error e then ErrNotFound
            else Wrapf (failure_message call) e)),
     w\<lparr>next_conn := Suc (next_conn w),
       events := events w @ [EvConnect (url c) (Some (next_conn w)),
         EvJetStream (next_conn w), EvCall (next_conn w) (request_of call)]
         @ map (EvMessage (next_conn w)) (lib_messages L (request_of call))
         @ [EvClose (next_conn w)]\<rparr>)"
  using assms
  by (cases call)
    (simp_all add: client_method_defs library_call_defs answer_info_def answer_none_def
      not_found_error_def split: sum.splits option.splits)

lemma run_call_succeeded:
  assumes "lib_Connect L (url c) = None" and "lib_JetStream L = None"
    and "lib_request L call = Inr i"
  shows "run_call L c call w =
    ((i, None),
     w\<lparr>next_conn := Suc (next_conn w),
       events := events w @ [EvConnect (url c) (Some (next_conn w)),
         EvJetStream (next_conn w), EvCall (next_conn w) (request_of call)]
         @ map (EvMessage (next_conn w)) (lib_messages L (request_of call))
         @ [EvClose (next_conn w)]\<rparr>)"
  using assms
  by (cases call)
    (auto simp add: client_method_defs library_call_defs answer_info_def answer_none_def
      split: sum.splits option.splits)

text \<open>Every invocation goes one of the four ways.\<close>

lemma run_call_cases:
  obtains (connect_failed) e where "lib_Connect L (url c) = Some e"
  | (jetstream_failed) e where "lib_Connect L (url c) = None" and "lib_JetStream L = Some e"
  | (request_failed) e where "lib_Connect L (url c) = None" and "lib_JetStream L = None"
      and "lib_request L call = Inl e"
  | (succeeded) i where "lib_Connect L (url c) = None" and "lib_JetStream L = None"
      and "lib_request L call = Inr i"
proof (cases "lib_Connect L (url c)")
  case (Some e)
  then show ?thesis by (rule connect_failed)
next
  case None
  note connected = this
  show ?thesis
  proof (cases "lib_JetStream L")
    case (Some e)
    with connected show ?thesis by (rule jetstream_failed)
  next
    case None
    with connected show ?thesis
      by (cases "lib_request L call") (auto intro: request_failed succeeded)
  qed
qed

subsection \<open>Error propagation\<close>

lemma not_found_iff:
  "snd (fst (run_call L c call w)) = Some ErrNotFound
     \<longleftrightarrow> is_Get call \<and> lib_Connect L (url c) = None \<and> lib_JetStream L = None
         \<and> (\<exists>e. lib_request L call = Inl e \<and> not_found_error e)"
proof (cases rule: run_call_cases[where L = L and c = c and call = call])
  case (connect_failed e)
  then show ?thesis by (simp add: run_call_connect_failed)
next
  case (jetstream_failed e)
  then show ?thesis by (simp add: run_call_jetstream_failed)
next
  case (request_failed e)
  then show ?thesis by (simp add: run_call_request_failed)
next
  case (succeeded i)
  then show ?thesis by (simp add: run_call_succeeded)
qed

lemma GetStream_as_call:
  "snd (fst (GetStream L c n w)) = snd (fst (run_call L c (CallGetStream n) w))"
  "StreamInfoOf (fst (fst (GetStream L c n w))) = fst (fst (run_call L c (CallGetStream n) w))"
  by (simp_all split: prod.splits)

lemma GetConsumer_as_call:
  "snd (fst (GetConsumer L c s n w)) = snd (fst (run_call L c (CallGetConsumer s n) w))"
  "ConsumerInfoOf (fst (fst (GetConsumer L c s n w)))
     = fst (fst (run_call L c (CallGetConsumer s n) w))"
  by (simp_all split: prod.splits)

lemma lib_request_Get_Inl:
  "lib_request L (CallGetStream n) = Inl e \<longleftrightarrow> lib_StreamInfo L n = Inl e"
  "lib_request L (CallGetConsumer s n) = Inl e \<longleftrightarrow> lib_ConsumerInfo L s n = Inl e"
  by (simp_all add: answer_info_def split: sum.splits)

text \<open>
  Claim C4. \<open>GetStream\<close> (and \<open>GetConsumer\<close>) returns the sentinel \<open>ErrNotFound\<close> exactly
  when the connection and the JetStream context were obtained and the library's
  \<open>StreamInfo\<close> (\<open>ConsumerInfo\<close>) call failed with an error that is \<open>ErrStreamNotFound\<close> or
  \<open>ErrConsumerNotFound\<close>; no other method returns the sentinel. Every other failure of
  any of the eight methods, in connecting, in creating the JetStream context or in the
  request, is returned as an error that wraps the library's error, together with the
  zero info; and on success the info returned is the library's, unchanged, with no error.
\<close>

theorem client_error_propagation:
  "(snd (fst (GetStream L c streamName w)) = Some ErrNotFound
      \<longleftrightarrow> lib_Connect L (url c) = None \<and> lib_JetStream L = None
          \<and> (\<exists>e. lib_StreamInfo L streamName = Inl e \<and> not_found_error e))
   \<and> (snd (fst (GetConsumer L c streamName consumerName w)) = Some ErrNotFound
      \<longleftrightarrow> lib_Connect L (url c) = None \<and> lib_JetStream L = None
          \<and> (\<exists>e. lib_ConsumerInfo L streamName consumerName = Inl e \<and> not_found_error e))
   \<and> (snd (fst (run_call L c call w)) = Some ErrNotFound \<longrightarrow> is_Get call)
   \<and> (\<forall>e. lib_Connect L (url c) = Some e \<longrightarrow>
         fst (run_call L c call w)
           = (zero_info call, Some (Wrapf ''failed to connect to nats'' e)))
   \<and> (\<forall>e. lib_Connect L (url c) = None \<and> lib_JetStream L = Some e \<longrightarrow>
         fst (run_call L c call w)
           = (zero_info call, Some (Wrapf ''failed to create a jetstream context'' e)))
   \<and> (\<forall>e. lib_Connect L (url c) = None \<and> lib_JetStream L = None
           \<and> lib_request L call = Inl e \<and> \<not> (is_Get call \<and> not_found_error e) \<longrightarrow>
         fst (run_call L c call w) = (zero_info call, Some (Wrapf (failure_message call) e)))
   \<and> (\<forall>i. lib_Connect L (url c) = None \<and> lib_JetStream L = None
           \<and> lib_request L call = Inr i \<longrightarrow>
         fst (run_call L c call w) = (i, None))"
proof -
  have get_stream: "snd (fst (GetStream L c streamName w)) = Some ErrNotFound
      \<longleftrightarrow> lib_Connect L (url c) = None \<and> lib_JetStream L = None
          \<and> (\<exists>e. lib_StreamInfo L streamName = Inl e \<and> not_found_error e)"
    using not_found_iff[of L c "CallGetStream streamName" w]
    by (simp only: GetStream_as_call lib_request_Get_Inl is_Get.simps simp_thms)
  have get_consumer: "snd (fst (GetConsumer L c streamName consumerName w)) = Some ErrNotFound
      \<longleftrightarrow> lib_Connect L (url c) = None \<and> lib_JetStream L = None
          \<and> (\<exists>e. lib_ConsumerInfo L streamName consumerName = Inl e \<and> not_found_error e)"
    using not_found_iff[of L c "CallGetConsumer streamName consumerName" w]
    by (simp only: GetConsumer_as_call lib_request_Get_Inl is_Get.simps simp_thms)
  have only_get: "snd (fst (run_call L c call w)) = Some ErrNotFound \<longrightarrow> is_Get call"
    by (simp add: not_found_iff)
  have failures: "\<forall>e. lib_Connect L (url c) = Some e \<longrightarrow>
         fst (run_call L c call w)
           = (zero_info call, Some (Wrapf ''failed to connect to nats'' e))"
    "\<forall>e. lib_Connect L (url c) = None \<and> lib_JetStream L = Some e \<longrightarrow>
         fst (run_call L c call w)
           = (zero_info call, Some (Wrapf ''failed to create a jetstream context'' e))"
    "\<forall>e. lib_Connect L (url c) = None \<and> lib_JetStream L = None
           \<and> lib_request L call = Inl e \<and> \<not> (is_Get call \<and> not_found_error e) \<longrightarrow>
         fst (run_call L c call w) = (zero_info call, Some (Wrapf (failure_message call) e))"
    by (simp_all add: run_call_connect_failed run_call_jetstream_failed
        run_call_request_failed)
  have success: "\<forall>i. lib_Connect L (url c) = None \<and> lib_JetStream L = None
           \<and> lib_request L call = Inr i \<longrightarrow>
         fst (run_call L c call w) = (i, None)"
    by (simp add: run_call_succeeded)
  from get_stream get_consumer only_get failures success show ?thesis
    by (intro conjI)
qed

theorem client_error_propagation_witness:
  "snd (fst (GetStream empty_server local_client ''orders'' initial_world)) = Some ErrNotFound
   \<and> snd (fst (GetConsumer empty_server local_client ''orders'' ''new_order_consumer''
        initial_world)) = Some ErrNotFound
   \<and> fst (run_call unreachable_server local_client (CallGetStream ''orders'') initial_world)
       = (StreamInfoOf zero_StreamInfo,
          Some (Wrapf ''failed to connect to nats'' (LibError ''no servers'')))
   \<and> fst (run_call no_jetstream_server local_client (CallDeleteStream ''orders'') initial_world)
       = (NoInfo, Some (Wrapf ''failed to create a jetstream context'' (LibError ''no jetstream'')))
   \<and> fst (run_call empty_server local_client (CallDeleteStream ''orders'') initial_world)
       = (NoInfo, Some (Wrapf ''failed to delete stream'' ErrStreamNotFound))
   \<and> fst (run_call empty_server local_client (CallCreateStream (toStreamConfig orders_stream))
        initial_world)
       = (StreamInfoOf \<lparr>si_Config = toStreamConfig orders_stream\<rparr>, None)"
  using client_error_propagation[of empty_server local_client "''orders''" initial_world
      "''new_order_consumer''" "CallDeleteStream ''orders''"]
    client_error_propagation[of unreachable_server local_client "''orders''" initial_world
      "''new_order_consumer''" "CallGetStream ''orders''"]
    client_error_propagation[of no_jetstream_server local_client "''orders''" initial_world
      "''new_order_consumer''" "CallDeleteStream ''orders''"]
    client_error_propagation[of empty_server local_client "''orders''" initial_world
      "''new_order_consumer''" "CallCreateStream (toStreamConfig orders_stream)"]
  by (simp add: empty_server_def unreachable_server_def no_jetstream_server_def
      not_found_error_def answer_info_def answer_none_def)

subsection \<open>One connection for each invocation\<close>





section \<open>Properties of the resource operations\<close>

subsection \<open>Diagnostics\<close>

lemma Diagnostics_Append_set: "set (Diagnostics_Append ds new) = set ds \<union> set new"
  unfolding Diagnostics_Append_def
  by (induction new arbitrary: ds) auto

lemma HasError_iff: "HasError ds \<longleftrightarrow> (\<exists>d \<in> set ds. d_severity d = SeverityError)"
  by (simp add: HasError_def list_ex_iff)

lemma HasError_Append: "HasError (Diagnostics_Append ds new) \<longleftrightarrow> HasError ds \<or> HasError new"
  by (auto simp: HasError_iff Diagnostics_Append_set)

lemma HasError_single:
  "HasError [] = False"
  "HasError [ErrorDiagnostic summary detail] = True"
  "HasError [AttributeErrorDiagnostic path summary detail] = True"
  "HasError [WarningDiagnostic summary detail] = False"
  by (simp_all add: HasError_def ErrorDiagnostic_def AttributeErrorDiagnostic_def
      WarningDiagnostic_def)

lemma Diagnostics_Append_Nil: "Diagnostics_Append ds [] = ds"
  by (simp add: Diagnostics_Append_def)

lemma errors_Is_ErrNotFound_iff: "errors_Is_ErrNotFound err \<longleftrightarrow> err = ErrNotFound"
  by (cases err) simp_all

lemma decoded_ok:
  "\<not> HasError (Diagnostics resp0) \<Longrightarrow> \<not> HasError (fst req)
     \<Longrightarrow> \<not> HasError (Diagnostics (Append_diags (fst req) resp0))"
  by (simp add: Append_diags_def HasError_Append)

lemma decoded_ok2:
  "\<not> HasError (Diagnostics resp0) \<Longrightarrow> \<not> HasError (fst req) \<Longrightarrow> \<not> HasError (fst req')
     \<Longrightarrow> \<not> HasError (Diagnostics (Append_diags (fst req') (Append_diags (fst req) resp0)))"
  by (simp add: Append_diags_def HasError_Append)

lemmas call_defs =
  call_GetStream_def call_CreateStream_def call_UpdateStream_def call_DeleteStream_def
  call_GetConsumer_def call_CreateConsumer_def call_UpdateConsumer_def call_DeleteConsumer_def
  invoke_def

lemmas response_defs =
  Append_diags_def AddError_def AddWarning_def AddAttributeError_def State_Set_def
  State_RemoveResource_def

subsection \<open>One client call for each operation\<close>

lemma stream_Create_pass_through:
  assumes "\<not> HasError (Diagnostics resp0)" and "\<not> HasError (fst req_Plan)"
  shows "single_call e (snd (streamResource_Create cl req_Plan resp0 e))
           (CallCreateStream (toStreamConfig (snd req_Plan)))
           (snd (Client_CreateStream cl (toStreamConfig (snd req_Plan)) (fst e)))
       \<and> (\<forall>info. fst (Client_CreateStream cl (toStreamConfig (snd req_Plan)) (fst e))
                    = (info, None)
            \<longrightarrow> State (fst (streamResource_Create cl req_Plan resp0 e))
                  = Some (fromStreamInfo info))"
  using decoded_ok[OF assms]
  by (auto simp add: streamResource_Create_def Let_def call_defs response_defs
      single_call_def split: prod.splits option.splits)

lemma stream_Read_pass_through:
  assumes "\<not> HasError (Diagnostics resp0)" and "\<not> HasError (fst req_State)"
  shows "single_call e (snd (streamResource_Read cl req_State resp0 e))
           (CallGetStream (ValueString (sm_Name (snd req_State))))
           (snd (Client_GetStream cl (ValueString (sm_Name (snd req_State))) (fst e)))
       \<and> (\<forall>info. fst (Client_GetStream cl (ValueString (sm_Name (snd req_State))) (fst e))
                    = (info, None)
            \<longrightarrow> State (fst (streamResource_Read cl req_State resp0 e))
                  = Some (fromStreamInfo info))"
  using decoded_ok[OF assms]
  by (auto simp add: streamResource_Read_def Let_def call_defs response_defs
      single_call_def split: prod.splits option.splits)

lemma stream_Update_pass_through:
  assumes "\<not> HasError (Diagnostics resp0)" and "\<not> HasError (fst req_Plan)"
    and "\<not> HasError (fst req_State)" and "sm_Name (snd req_Plan) = sm_Name (snd req_State)"
  shows "single_call e (snd (streamResource_Update cl req_Plan req_State resp0 e))
           (CallUpdateStream (toStreamConfig (snd req_Plan)))
           (snd (Client_UpdateStream cl (toStreamConfig (snd req_Plan)) (fst e)))
       \<and> (\<forall>info. fst (Client_UpdateStream cl (toStreamConfig (snd req_Plan)) (fst e))
                    = (info, None)
            \<longrightarrow> State (fst (streamResource_Update cl req_Plan req_State resp0 e))
                  = Some (fromStreamInfo info))"
  using decoded_ok[OF assms(1,2)] decoded_ok2[OF assms(1,2,3)] assms(4)
  by (auto simp add: streamResource_Update_def Let_def call_defs response_defs
      single_call_def split: prod.splits option.splits)

lemma stream_Delete_pass_through:
  assumes "\<not> HasError (Diagnostics resp0)" and "\<not> HasError (fst req_State)"
  shows "single_call e (snd (streamResource_Delete cl req_State resp0 e))
           (CallDeleteStream (ValueString (sm_Name (snd req_State))))
           (snd (Client_DeleteStream cl (ValueString (sm_Name (snd req_State))) (fst e)))
       \<and> State (fst (streamResource_Delete cl req_State resp0 e)) = State resp0"
  using decoded_ok[OF assms]
  by (auto simp add: streamResource_Delete_def Let_def call_defs response_defs
      single_call_def split: prod.splits option.splits)

lemma consumer_Create_pass_through:
  assumes "\<not> HasError (Diagnostics resp0)" and "\<not> HasError (fst req_Plan)"
    and "snd (toConsumerConfig (snd req_Plan)) = None"
  shows "single_call e (snd (consumerResource_Create cl req_Plan resp0 e))
           (CallCreateConsumer (ValueString (cm_StreamName (snd req_Plan)))
              (fst (toConsumerConfig (snd req_Plan))))
           (snd (Client_CreateConsumer cl (ValueString (cm_StreamName (snd req_Plan)))
              (fst (toConsumerConfig (snd req_Plan))) (fst e)))
       \<and> (\<forall>info. fst (Client_CreateConsumer cl (ValueString (cm_StreamName (snd req_Plan)))
                      (fst (toConsumerConfig (snd req_Plan))) (fst e)) = (info, None)
            \<longrightarrow> State (fst (consumerResource_Create cl req_Plan resp0 e))
                  = Some (fromConsumerInfo info))"
  using decoded_ok[OF assms(1,2)] assms(3)
  by (auto simp add: consumerResource_Create_def Let_def call_defs response_defs
      single_call_def split: prod.splits option.splits)

lemma consumer_Read_pass_through:
  assumes "\<not> HasError (Diagnostics resp0)" and "\<not> HasError (fst req_State)"
  shows "single_call e (snd (consumerResource_Read cl req_State resp0 e))
           (CallGetConsumer (ValueString (cm_StreamName (snd req_State)))
              (ValueString (cm_Name (snd req_State))))
           (snd (Client_GetConsumer cl (ValueString (cm_StreamName (snd req_State)))
              (ValueString (cm_Name (snd req_State))) (fst e)))
       \<and> (\<forall>info. fst (Client_GetConsumer cl (ValueString (cm_StreamName (snd req_State)))
                      (ValueString (cm_Name (snd req_State))) (fst e)) = (info, None)
            \<longrightarrow> State (fst (consumerResource_Read cl req_State resp0 e))
                  = Some (fromConsumerInfo info))"
  using decoded_ok[OF assms]
  by (auto simp add: consumerResource_Read_def Let_def call_defs response_defs
      single_call_def split: prod.splits option.splits)

lemma consumer_Update_pass_through:
  assumes "\<not> HasError (Diagnostics resp0)" and "\<not> HasError (fst req_Plan)"
    and "\<not> HasError (fst req_State)"
    and "cm_Name (snd req_Plan) = cm_Name (snd req_State)"
    and "cm_StreamName (snd req_Plan) = cm_StreamName (snd req_State)"
    and "snd (toConsumerConfig (snd req_Plan)) = None"
  shows "single_call e (snd (consumerResource_Update cl req_Plan req_State resp0 e))
           (CallUpdateConsumer (ValueString (cm_StreamName (snd req_Plan)))
              (fst (toConsumerConfig (snd req_Plan))))
           (snd (Client_UpdateConsumer cl (ValueString (cm_StreamName (snd req_Plan)))
              (fst (toConsumerConfig (snd req_Plan))) (fst e)))
       \<and> (\<forall>info. fst (Client_UpdateConsumer cl (ValueString (cm_StreamName (snd req_Plan)))
                      (fst (toConsumerConfig (snd req_Plan))) (fst e)) = (info, None)
            \<longrightarrow> State (fst (consumerResource_Update cl req_Plan req_State resp0 e))
                  = Some (fromConsumerInfo info))"
  using decoded_ok[OF assms(1,2)] decoded_ok2[OF assms(1,2,3)] assms(4,5,6)
  by (auto simp add: consumerResource_Update_def Let_def call_defs response_defs
      single_call_def split: prod.splits option.splits)

lemma consumer_Delete_pass_through:
  assumes "\<not> HasError (Diagnostics resp0)" and "\<not> HasError (fst req_State)"
  shows "single_call e (snd (consumerResource_Delete cl req_State resp0 e))
           (CallDeleteConsumer (ValueString (cm_StreamName (snd req_State)))
              (ValueString (cm_Name (snd req_State))))
           (snd (Client_DeleteConsumer cl (ValueString (cm_StreamName (snd req_State)))
              (ValueString (cm_Name (snd req_State))) (fst e)))
       \<and> State (fst (consumerResource_Delete cl req_State resp0 e)) = State resp0"
  using decoded_ok[OF assms]
  by (auto simp add: consumerResource_Delete_def Let_def call_defs response_defs
      single_call_def split: prod.splits option.splits)

text \<open>
  Claim C5. Let the response hold no error at the start and let the plan and the state
  decode without error. Then each of the eight resource operations, provided its local
  validation passes (the names of plan and state agree for an Update; the mode check of
  \<open>toConsumerConfig\<close> passes for a consumer's Create and Update), makes exactly one client
  call, the one of its kind: Create calls \<open>CreateStream\<close> or \<open>CreateConsumer\<close> and Update
  calls \<open>UpdateStream\<close> or \<open>UpdateConsumer\<close> with the configuration that \<open>toStreamConfig\<close>
  or \<open>toConsumerConfig\<close> makes of the plan; Read calls \<open>GetStream\<close> or \<open>GetConsumer\<close> and
  Delete calls \<open>DeleteStream\<close> or \<open>DeleteConsumer\<close> with the names in the state. When the
  call returns no error, Create, Read and Update store \<open>fromStreamInfo\<close> or
  \<open>fromConsumerInfo\<close> of the returned info as the state; Delete leaves the state as it is.
\<close>

theorem single_call_pass_through:
  fixes cl :: "'w Client" and e :: "'w env"
    and stream_Plan stream_State :: "streamResourceModel decoded"
    and consumer_Plan consumer_State :: "consumerResourceModel decoded"
    and sresp :: "streamResourceModel Response" and cresp :: "consumerResourceModel Response"
  assumes "\<not> HasError (Diagnostics sresp)" and "\<not> HasError (Diagnostics cresp)"
    and "\<not> HasError (fst stream_Plan)" and "\<not> HasError (fst stream_State)"
    and "\<not> HasError (fst consumer_Plan)" and "\<not> HasError (fst consumer_State)"
  shows
  "(single_call e (snd (streamResource_Create cl stream_Plan sresp e))
      (CallCreateStream (toStreamConfig (snd stream_Plan)))
      (snd (Client_CreateStream cl (toStreamConfig (snd stream_Plan)) (fst e)))
    \<and> (\<forall>info. fst (Client_CreateStream cl (toStreamConfig (snd stream_Plan)) (fst e))
                 = (info, None)
         \<longrightarrow> State (fst (streamResource_Create cl stream_Plan sresp e))
               = Some (fromStreamInfo info)))
   \<and> (single_call e (snd (streamResource_Read cl stream_State sresp e))
      (CallGetStream (ValueString (sm_Name (snd stream_State))))
      (snd (Client_GetStream cl (ValueString (sm_Name (snd stream_State))) (fst e)))
    \<and> (\<forall>info. fst (Client_GetStream cl (ValueString (sm_Name (snd stream_State))) (fst e))
                 = (info, None)
         \<longrightarrow> State (fst (streamResource_Read cl stream_State sresp e))
               = Some (fromStreamInfo info)))
   \<and> (sm_Name (snd stream_Plan) = sm_Name (snd stream_State) \<longrightarrow>
      single_call e (snd (streamResource_Update cl stream_Plan stream_State sresp e))
        (CallUpdateStream (toStreamConfig (snd stream_Plan)))
        (snd (Client_UpdateStream cl (toStreamConfig (snd stream_Plan)) (fst e)))
      \<and> (\<forall>info. fst (Client_UpdateStream cl (toStreamConfig (snd stream_Plan)) (fst e))
                   = (info, None)
           \<longrightarrow> State (fst (streamResource_Update cl stream_Plan stream_State sresp e))
                 = Some (fromStreamInfo info)))
   \<and> (single_call e (snd (streamResource_Delete cl stream_State sresp e))
      (CallDeleteStream (ValueString (sm_Name (snd stream_State))))
      (snd (Client_DeleteStream cl (ValueString (sm_Name (snd stream_State))) (fst e)))
    \<and> State (fst (streamResource_Delete cl stream_State sresp e)) = State sresp)
   \<and> (snd (toConsumerConfig (snd consumer_Plan)) = None \<longrightarrow>
      single_call e (snd (consumerResource_Create cl consumer_Plan cresp e))
        (CallCreateConsumer (ValueString (cm_StreamName (snd consumer_Plan)))
           (fst (toConsumerConfig (snd consumer_Plan))))
        (snd (Client_CreateConsumer cl (ValueString (cm_StreamName (snd consumer_Plan)))
           (fst (toConsumerConfig (snd consumer_Plan))) (fst e)))
      \<and> (\<forall>info. fst (Client_CreateConsumer cl (ValueString (cm_StreamName (snd consumer_Plan)))
                     (fst (toConsumerConfig (snd consumer_Plan))) (fst e)) = (info, None)
           \<longrightarrow> State (fst (consumerResource_Create cl consumer_Plan cresp e))
                 = Some (fromConsumerInfo info)))
   \<and> (single_call e (snd (consumerResource_Read cl consumer_State cresp e))
      (CallGetConsumer (ValueString (cm_StreamName (snd consumer_State)))
         (ValueString (cm_Name (snd consumer_State))))
      (snd (Client_GetConsumer cl (ValueString (cm_StreamName (snd consumer_State)))
         (ValueString (cm_Name (snd consumer_State))) (fst e)))
    \<and> (\<forall>info. fst (Client_GetConsumer cl (ValueString (cm_StreamName (snd consumer_State)))
                   (ValueString (cm_Name (snd consumer_State))) (fst e)) = (info, None)
         \<longrightarrow> State (fst (consumerResource_Read cl consumer_State cresp e))
               = Some (fromConsumerInfo info)))
   \<and> (cm_Name (snd consumer_Plan) = cm_Name (snd consumer_State)
      \<and> cm_StreamName (snd consumer_Plan) = cm_StreamName (snd consumer_State)
      \<and> snd (toConsumerConfig (snd consumer_Plan)) = None \<longrightarrow>
      single_call e (snd (consumerResource_Update cl consumer_Plan consumer_State cresp e))
        (CallUpdateConsumer (ValueString (cm_StreamName (snd consumer_Plan)))
           (fst (toConsumerConfig (snd consumer_Plan))))
        (snd (Client_UpdateConsumer cl (ValueString (cm_StreamName (snd consumer_Plan)))
           (fst (toConsumerConfig (snd consumer_Plan))) (fst e)))
      \<and> (\<forall>info. fst (Client_UpdateConsumer cl (ValueString (cm_StreamName (snd consumer_Plan)))
                     (fst (toConsumerConfig (snd consumer_Plan))) (fst e)) = (info, None)
           \<longrightarrow> State (fst (consumerResource_Update cl consumer_Plan consumer_State cresp e))
                 = Some (fromConsumerInfo info)))
   \<and> (single_call e (snd (consumerResource_Delete cl consumer_State cresp e))
      (CallDeleteConsumer (ValueString (cm_StreamName (snd consumer_State)))
         (ValueString (cm_Name (snd consumer_State))))
      (snd (Client_DeleteConsumer cl (ValueString (cm_StreamName (snd consumer_State)))
         (ValueString (cm_Name (snd consumer_State))) (fst e)))
    \<and> State (fst (consumerResource_Delete cl consumer_State cresp e)) = State cresp)"
proof (intro conjI impI)
  show "single_call e (snd (streamResource_Create cl stream_Plan sresp e))
      (CallCreateStream (toStreamConfig (snd stream_Plan)))
      (snd (Client_CreateStream cl (toStreamConfig (snd stream_Plan)) (fst e)))"
    using stream_Create_pass_through[OF assms(1,3)] by blast
  show "\<forall>info. fst (Client_CreateStream cl (toStreamConfig (snd stream_Plan)) (fst e))
                 = (info, None)
         \<longrightarrow> State (fst (streamResource_Create cl stream_Plan sresp e))
               = Some (fromStreamInfo info)"
    using stream_Create_pass_through[OF assms(1,3)] by blast
  show "single_call e (snd (streamResource_Read cl stream_State sresp e))
      (CallGetStream (ValueString (sm_Name (snd stream_State))))
      (snd (Client_GetStream cl (ValueString (sm_Name (snd stream_State))) (fst e)))"
    using stream_Read_pass_through[OF assms(1,4)] by blast
  show "\<forall>info. fst (Client_GetStream cl (ValueString (sm_Name (snd stream_State))) (fst e))
                 = (info, None)
         \<longrightarrow> State (fst (streamResource_Read cl stream_State sresp e))
               = Some (fromStreamInfo info)"
    using stream_Read_pass_through[OF assms(1,4)] by blast
  show "single_call e (snd (streamResource_Delete cl stream_State sresp e))
      (CallDeleteStream (ValueString (sm_Name (snd stream_State))))
      (snd (Client_DeleteStream cl (ValueString (sm_Name (snd stream_State))) (fst e)))"
    using stream_Delete_pass_through[OF assms(1,4)] by blast
  show "State (fst (streamResource_Delete cl stream_State sresp e)) = State sresp"
    using stream_Delete_pass_through[OF assms(1,4)] by blast
  show "single_call e (snd (consumerResource_Read cl consumer_State cresp e))
      (CallGetConsumer (ValueString (cm_StreamName (snd consumer_State)))
         (ValueString (cm_Name (snd consumer_State))))
      (snd (Client_GetConsumer cl (ValueString (cm_StreamName (snd consumer_State)))
         (ValueString (cm_Name (snd consumer_State))) (fst e)))"
    using consumer_Read_pass_through[OF assms(2,6)] by blast
  show "\<forall>info. fst (Client_GetConsumer cl (ValueString (cm_StreamName (snd consumer_State)))
                   (ValueString (cm_Name (snd consumer_State))) (fst e)) = (info, None)
         \<longrightarrow> State (fst (consumerResource_Read cl consumer_State cresp e))
               = Some (fromConsumerInfo info)"
    using consumer_Read_pass_through[OF assms(2,6)] by blast
  show "single_call e (snd (consumerResource_Delete cl consumer_State cresp e))
      (CallDeleteConsumer (ValueString (cm_StreamName (snd consumer_State)))
         (ValueString (cm_Name (snd consumer_State))))
      (snd (Client_DeleteConsumer cl (ValueString (cm_StreamName (snd consumer_State)))
         (ValueString (cm_Name (snd consumer_State))) (fst e)))"
    using consumer_Delete_pass_through[OF assms(2,6)] by blast
  show "State (fst (consumerResource_Delete cl consumer_State cresp e)) = State cresp"
    using consumer_Delete_pass_through[OF assms(2,6)] by blast
next
  assume same: "sm_Name (snd stream_Plan) = sm_Name (snd stream_State)"
  show "single_call e (snd (streamResource_Update cl stream_Plan stream_State sresp e))
        (CallUpdateStream (toStreamConfig (snd stream_Plan)))
        (snd (Client_UpdateStream cl (toStreamConfig (snd stream_Plan)) (fst e)))"
    using stream_Update_pass_through[OF assms(1,3,4) same] by blast
next
  assume same: "sm_Name (snd stream_Plan) = sm_Name (snd stream_State)"
  show "\<forall>info. fst (Client_UpdateStream cl (toStreamConfig (snd stream_Plan)) (fst e))
                   = (info, None)
           \<longrightarrow> State (fst (streamResource_Update cl stream_Plan stream_State sresp e))
                 = Some (fromStreamInfo info)"
    using stream_Update_pass_through[OF assms(1,3,4) same] by blast
next
  assume valid: "snd (toConsumerConfig (snd consumer_Plan)) = None"
  show "single_call e (snd (consumerResource_Create cl consumer_Plan cresp e))
        (CallCreateConsumer (ValueString (cm_StreamName (snd consumer_Plan)))
           (fst (toConsumerConfig (snd consumer_Plan))))
        (snd (Client_CreateConsumer cl (ValueString (cm_StreamName (snd consumer_Plan)))
           (fst (toConsumerConfig (snd consumer_Plan))) (fst e)))"
    using consumer_Create_pass_through[OF assms(2,5) valid] by blast
next
  assume valid: "snd (toConsumerConfig (snd consumer_Plan)) = None"
  show "\<forall>info. fst (Client_CreateConsumer cl (ValueString (cm_StreamName (snd consumer_Plan)))
                     (fst (toConsumerConfig (snd consumer_Plan))) (fst e)) = (info, None)
           \<longrightarrow> State (fst (consumerResource_Create cl consumer_Plan cresp e))
                 = Some (fromConsumerInfo info)"
    using consumer_Create_pass_through[OF assms(2,5) valid] by blast
next
  assume names: "cm_Name (snd consumer_Plan) = cm_Name (snd consumer_State)
      \<and> cm_StreamName (snd consumer_Plan) = cm_StreamName (snd consumer_State)
      \<and> snd (toConsumerConfig (snd consumer_Plan)) = None"
  show "single_call e (snd (consumerResource_Update cl consumer_Plan consumer_State cresp e))
        (CallUpdateConsumer (ValueString (cm_StreamName (snd consumer_Plan)))
           (fst (toConsumerConfig (snd consumer_Plan))))
        (snd (Client_UpdateConsumer cl (ValueString (cm_StreamName (snd consumer_Plan)))
           (fst (toConsumerConfig (snd consumer_Plan))) (fst e)))"
    using consumer_Update_pass_through[OF assms(2,5,6)] names by blast
next
  assume names: "cm_Name (snd consumer_Plan) = cm_Name (snd consumer_State)
      \<and> cm_StreamName (snd consumer_Plan) = cm_StreamName (snd consumer_State)
      \<and> snd (toConsumerConfig (snd consumer_Plan)) = None"
  show "\<forall>info. fst (Client_UpdateConsumer cl (ValueString (cm_StreamName (snd consumer_Plan)))
                     (fst (toConsumerConfig (snd consumer_Plan))) (fst e)) = (info, None)
           \<longrightarrow> State (fst (consumerResource_Update cl consumer_Plan consumer_State cresp e))
                 = Some (fromConsumerInfo info)"
    using consumer_Update_pass_through[OF assms(2,5,6)] names by blast
qed

theorem single_call_pass_through_witness:
  "snd (snd (streamResource_Create (client_impl empty_server local_client)
       ([], orders_stream) empty_response (initial_world, [])))
     = [CallCreateStream (toStreamConfig orders_stream)]
   \<and> State (fst (streamResource_Create (client_impl empty_server local_client)
       ([], orders_stream) empty_response (initial_world, [])))
     = Some (fromStreamInfo \<lparr>si_Config = toStreamConfig orders_stream\<rparr>)
   \<and> snd (snd (streamResource_Read (client_impl empty_server local_client)
       ([], orders_stream) empty_response (initial_world, [])))
     = [CallGetStream ''orders'']
   \<and> snd (snd (consumerResource_Delete (client_impl empty_server local_client)
       ([], new_order_consumer) empty_response (initial_world, [])))
     = [CallDeleteConsumer ''orders'' ''new_order_consumer'']"
proof -
  have sresp: "\<not> HasError (Diagnostics (empty_response :: streamResourceModel Response))"
    by (simp add: empty_response_def HasError_def)
  have cresp: "\<not> HasError (Diagnostics (empty_response :: consumerResourceModel Response))"
    by (simp add: empty_response_def HasError_def)
  have sdec: "\<not> HasError (fst ([], orders_stream))"
    by (simp add: HasError_def)
  have cdec: "\<not> HasError (fst ([], new_order_consumer))"
    by (simp add: HasError_def)
  have created: "fst (Client_CreateStream (client_impl empty_server local_client)
      (toStreamConfig (snd ([], orders_stream))) (fst (initial_world, [])))
    = (\<lparr>si_Config = toStreamConfig orders_stream\<rparr>, None)"
    by (simp add: client_impl_def CreateStream_def library_call_defs empty_server_def)
  show ?thesis
    using created
      single_call_pass_through[where cl = "client_impl empty_server local_client"
        and e = "(initial_world, [])", OF sresp cresp sdec sdec cdec cdec]
    by (simp add: single_call_def orders_stream_def new_order_consumer_def)
qed

subsection \<open>Client errors in the operations\<close>

lemma fromStreamInfo_fields:
  "fromStreamInfo info =
     \<lparr>sm_Name = StringValue (sc_Name (si_Config info)),
      sm_Subjects = map StringValue (sc_Subjects (si_Config info)),
      sm_Storage = StringValue (FromStorageType (sc_Storage (si_Config info))),
      sm_NumReplicas = Int64Value (sc_Replicas (si_Config info)),
      sm_Retention = StringValue (FromRetentionPolicy (sc_Retention (si_Config info))),
      sm_Discard = StringValue (FromDiscardPolicy (sc_Discard (si_Config info))),
      sm_MaxMsgs = Int64Value (sc_MaxMsgs (si_Config info)),
      sm_MaxConsumers = Int64Value (sc_MaxConsumers (si_Config info)),
      sm_MaxBytes = Int64Value (sc_MaxBytes (si_Config info)),
      sm_MaxMsgsPerSubject = Int64Value (sc_MaxMsgsPerSubject (si_Config info)),
      sm_MaxMsgSize = Int64Value (scast (sc_MaxMsgSize (si_Config info))),
      sm_MaxAge = Int64Value (sc_MaxAge (si_Config info)),
      sm_DuplicateWindow = Int64Value (sc_Duplicates (si_Config info)),
      sm_AllowDirect = BoolValue (sc_AllowDirect (si_Config info))\<rparr>"
  by (simp add: fromStreamInfo_def convertSlice_map int64_of_int_def int64_of_int32_def)

lemma fromConsumerInfo_fields:
  "fromConsumerInfo info =
     \<lparr>cm_StreamName = StringValue (ci_Stream info),
      cm_Name = StringValue (ci_Name info),
      cm_Mode = StringValue
        (if cc_DeliverSubject (ci_Config info) = [] then ''pull'' else ''push''),
      cm_DeliverPolicy =
        StringValue (FromDeliverPolicy (cc_DeliverPolicy (ci_Config info))),
      cm_AckPolicy = StringValue (FromAckPolicy (cc_AckPolicy (ci_Config info))),
      cm_FilterSubjects = map StringValue (cc_FilterSubjects (ci_Config info)),
      cm_DeliverSubject = StringValue (cc_DeliverSubject (ci_Config info)),
      cm_DeliverGroup = StringValue (cc_DeliverGroup (ci_Config info))\<rparr>"
  by (simp add: fromConsumerInfo_def convertSlice_map Let_def)

lemma stream_Read_outcomes:
  assumes "\<not> HasError (Diagnostics resp0)" and "\<not> HasError (fst req_State)"
  shows "(\<forall>info. fst (Client_GetStream cl (ValueString (sm_Name (snd req_State))) (fst e))
                = (info, Some ErrNotFound) \<longrightarrow>
            State (fst (streamResource_Read cl req_State resp0 e)) = None
          \<and> WarningDiagnostic ''Resource not found''
               ''couldn't find the stream, possibly deleted outside terraform''
               \<in> set (Diagnostics (fst (streamResource_Read cl req_State resp0 e)))
          \<and> \<not> HasError (Diagnostics (fst (streamResource_Read cl req_State resp0 e))))
       \<and> (\<forall>info err. fst (Client_GetStream cl (ValueString (sm_Name (snd req_State))) (fst e))
                = (info, Some err) \<and> err \<noteq> ErrNotFound \<longrightarrow>
            State (fst (streamResource_Read cl req_State resp0 e)) = State resp0
          \<and> ErrorDiagnostic ''Client error'' (''Failed to read stream: '' @ Error err)
               \<in> set (Diagnostics (fst (streamResource_Read cl req_State resp0 e)))
          \<and> HasError (Diagnostics (fst (streamResource_Read cl req_State resp0 e))))
       \<and> (\<forall>info. fst (Client_GetStream cl (ValueString (sm_Name (snd req_State))) (fst e))
                = (info, None) \<longrightarrow>
            State (fst (streamResource_Read cl req_State resp0 e)) = Some (fromStreamInfo info)
          \<and> fromStreamInfo info =
            \<lparr>sm_Name = StringValue (sc_Name (si_Config info)),
           sm_Subjects = map StringValue (sc_Subjects (si_Config info)),
           sm_Storage = StringValue (FromStorageType (sc_Storage (si_Config info))),
           sm_NumReplicas = Int64Value (sc_Replicas (si_Config info)),
           sm_Retention = StringValue (FromRetentionPolicy (sc_Retention (si_Config info))),
           sm_Discard = StringValue (FromDiscardPolicy (sc_Discard (si_Config info))),
           sm_MaxMsgs = Int64Value (sc_MaxMsgs (si_Config info)),
           sm_MaxConsumers = Int64Value (sc_MaxConsumers (si_Config info)),
           sm_MaxBytes = Int64Value (sc_MaxBytes (si_Config info)),
           sm_MaxMsgsPerSubject = Int64Value (sc_MaxMsgsPerSubject (si_Config info)),
           sm_MaxMsgSize = Int64Value (scast (sc_MaxMsgSize (si_Config info))),
           sm_MaxAge = Int64Value (sc_MaxAge (si_Config info)),
           sm_DuplicateWindow = Int64Value (sc_Duplicates (si_Config info)),
           sm_AllowDirect = BoolValue (sc_AllowDirect (si_Config info))\<rparr>
          \<and> \<not> HasError (Diagnostics (fst (streamResource_Read cl req_State resp0 e))))"
  using decoded_ok[OF assms] assms
  by (auto simp add: streamResource_Read_def Let_def call_defs response_defs
      errors_Is_ErrNotFound_iff Diagnostics_Append_set HasError_Append Diagnostics_Append_Nil
      HasError_single fromStreamInfo_fields
      split: prod.splits option.splits)

lemma consumer_Read_outcomes:
  assumes "\<not> HasError (Diagnostics resp0)" and "\<not> HasError (fst req_State)"
  shows "(\<forall>info. fst (Client_GetConsumer cl (ValueString (cm_StreamName (snd req_State)))
                  (ValueString (cm_Name (snd req_State))) (fst e))
                = (info, Some ErrNotFound) \<longrightarrow>
            State (fst (consumerResource_Read cl req_State resp0 e)) = None
          \<and> WarningDiagnostic ''Resource not found''
               ''couldn't find the consumer, possibly deleted outside terraform''
               \<in> set (Diagnostics (fst (consumerResource_Read cl req_State resp0 e)))
          \<and> \<not> HasError (Diagnostics (fst (consumerResource_Read cl req_State resp0 e))))
       \<and> (\<forall>info err. fst (Client_GetConsumer cl (ValueString (cm_StreamName (snd req_State)))
                  (ValueString (cm_Name (snd req_State))) (fst e))
                = (info, Some err) \<and> err \<noteq> ErrNotFound \<longrightarrow>
            State (fst (consumerResource_Read cl req_State resp0 e)) = State resp0
          \<and> ErrorDiagnostic ''Client error'' (''Failed to read consumer: '' @ Error err)
               \<in> set (Diagnostics (fst (consumerResource_Read cl req_State resp0 e)))
          \<and> HasError (Diagnostics (fst (consumerResource_Read cl req_State resp0 e))))
       \<and> (\<forall>info. fst (Client_GetConsumer cl (ValueString (cm_StreamName (snd req_State)))
                  (ValueString (cm_Name (snd req_State))) (fst e))
                = (info, None) \<longrightarrow>
            State (fst (consumerResource_Read cl req_State resp0 e))
              = Some (fromConsumerInfo info)
          \<and> fromConsumerInfo info =
            \<lparr>cm_StreamName = StringValue (ci_Stream info),
           cm_Name = StringValue (ci_Name info),
           cm_Mode = StringValue
             (if cc_DeliverSubject (ci_Config info) = [] then ''pull'' else ''push''),
           cm_DeliverPolicy =
             StringValue (FromDeliverPolicy (cc_DeliverPolicy (ci_Config info))),
           cm_AckPolicy = StringValue (FromAckPolicy (cc_AckPolicy (ci_Config info))),
           cm_FilterSubjects = map StringValue (cc_FilterSubjects (ci_Config info)),
           cm_DeliverSubject = StringValue (cc_DeliverSubject (ci_Config info)),
           cm_DeliverGroup = StringValue (cc_DeliverGroup (ci_Config info))\<rparr>
          \<and> \<not> HasError (Diagnostics (fst (consumerResource_Read cl req_State resp0 e))))"
  using decoded_ok[OF assms] assms
  by (auto simp add: consumerResource_Read_def Let_def call_defs response_defs
      errors_Is_ErrNotFound_iff Diagnostics_Append_set HasError_Append Diagnostics_Append_Nil
      HasError_single fromConsumerInfo_fields
      split: prod.splits option.splits)

lemma stream_Create_propagates:
  assumes "fst (Client_CreateStream cl (toStreamConfig (snd req_Plan)) (fst e)) = (info, Some err)"
  shows "HasError (Diagnostics (fst (streamResource_Create cl req_Plan resp0 e)))
       \<and> State (fst (streamResource_Create cl req_Plan resp0 e)) = State resp0"
  using assms
  by (auto simp add: streamResource_Create_def Let_def call_defs response_defs
      HasError_Append HasError_single Diagnostics_Append_Nil split: prod.splits option.splits)

lemma stream_Update_propagates:
  assumes "fst (Client_UpdateStream cl (toStreamConfig (snd req_Plan)) (fst e)) = (info, Some err)"
  shows "HasError (Diagnostics (fst (streamResource_Update cl req_Plan req_State resp0 e)))
       \<and> State (fst (streamResource_Update cl req_Plan req_State resp0 e)) = State resp0"
  using assms
  by (auto simp add: streamResource_Update_def Let_def call_defs response_defs
      HasError_Append HasError_single Diagnostics_Append_Nil
      split: prod.splits option.splits)

lemma stream_Delete_propagates:
  assumes "fst (Client_DeleteStream cl (ValueString (sm_Name (snd req_State))) (fst e)) = Some err"
  shows "HasError (Diagnostics (fst (streamResource_Delete cl req_State resp0 e)))
       \<and> State (fst (streamResource_Delete cl req_State resp0 e)) = State resp0"
  using assms
  by (auto simp add: streamResource_Delete_def Let_def call_defs response_defs
      HasError_Append HasError_single Diagnostics_Append_Nil split: prod.splits option.splits)

lemma consumer_Create_propagates:
  assumes "fst (Client_CreateConsumer cl (ValueString (cm_StreamName (snd req_Plan)))
      (fst (toConsumerConfig (snd req_Plan))) (fst e)) = (info, Some err)"
  shows "HasError (Diagnostics (fst (consumerResource_Create cl req_Plan resp0 e)))
       \<and> State (fst (consumerResource_Create cl req_Plan resp0 e)) = State resp0"
  using assms
  by (auto simp add: consumerResource_Create_def Let_def call_defs response_defs
      HasError_Append HasError_single Diagnostics_Append_Nil split: prod.splits option.splits)

lemma consumer_Update_propagates:
  assumes "fst (Client_UpdateConsumer cl (ValueString (cm_StreamName (snd req_Plan)))
      (fst (toConsumerConfig (snd req_Plan))) (fst e)) = (info, Some err)"
  shows "HasError (Diagnostics (fst (consumerResource_Update cl req_Plan req_State resp0 e)))
       \<and> State (fst (consumerResource_Update cl req_Plan req_State resp0 e)) = State resp0"
  using assms
  by (auto simp add: consumerResource_Update_def Let_def call_defs response_defs
      HasError_Append HasError_single Diagnostics_Append_Nil split: prod.splits option.splits)

lemma consumer_Delete_propagates:
  assumes "fst (Client_DeleteConsumer cl (ValueString (cm_StreamName (snd req_State)))
      (ValueString (cm_Name (snd req_State))) (fst e)) = Some err"
  shows "HasError (Diagnostics (fst (consumerResource_Delete cl req_State resp0 e)))
       \<and> State (fst (consumerResource_Delete cl req_State resp0 e)) = State resp0"
  using assms
  by (auto simp add: consumerResource_Delete_def Let_def call_defs response_defs
      HasError_Append HasError_single Diagnostics_Append_Nil split: prod.splits option.splits)

lemma data_source_Read_propagates:
  assumes "fst (Client_GetStream cl (ValueString (sm_Name (snd req_Config))) (fst e))
      = (info, Some err)"
  shows "HasError (Diagnostics (fst (streamDataSource_Read cl req_Config resp0 e)))
       \<and> State (fst (streamDataSource_Read cl req_Config resp0 e)) = State resp0"
  using assms
  by (auto simp add: streamDataSource_Read_def Let_def call_defs response_defs
      HasError_Append HasError_single Diagnostics_Append_Nil split: prod.splits option.splits)

text \<open>
  Claim C10. Let the response hold no error at the start and let the state decode without
  error. If the client's Get call returns \<open>ErrNotFound\<close>, the Read of the stream resource
  and of the consumer resource adds a warning, adds no error and removes the resource
  from the state. If the call returns any other error, Read adds an error diagnostic and
  leaves the state as it was. If the call returns no error, Read stores the fetched info
  as the state. No other operation treats a client error in this way: in Create, Update
  and Delete of either resource, and in the Read of the stream data source, every error
  of the client call, \<open>ErrNotFound\<close> included, ends in an error diagnostic and an
  unchanged state.
\<close>

theorem read_not_found_handling:
  fixes cl :: "'w Client" and e :: "'w env"
    and stream_Plan stream_State :: "streamResourceModel decoded"
    and consumer_Plan consumer_State :: "consumerResourceModel decoded"
    and sresp :: "streamResourceModel Response" and cresp :: "consumerResourceModel Response"
  assumes "\<not> HasError (Diagnostics sresp)" and "\<not> HasError (Diagnostics cresp)"
    and "\<not> HasError (fst stream_State)" and "\<not> HasError (fst consumer_State)"
  shows
  "((\<forall>info. fst (Client_GetStream cl (ValueString (sm_Name (snd stream_State))) (fst e))
              = (info, Some ErrNotFound) \<longrightarrow>
        State (fst (streamResource_Read cl stream_State sresp e)) = None
      \<and> WarningDiagnostic ''Resource not found''
           ''couldn't find the stream, possibly deleted outside terraform''
           \<in> set (Diagnostics (fst (streamResource_Read cl stream_State sresp e)))
      \<and> \<not> HasError (Diagnostics (fst (streamResource_Read cl stream_State sresp e))))
    \<and> (\<forall>info err. fst (Client_GetStream cl (ValueString (sm_Name (snd stream_State))) (fst e))
              = (info, Some err) \<and> err \<noteq> ErrNotFound \<longrightarrow>
        State (fst (streamResource_Read cl stream_State sresp e)) = State sresp
      \<and> ErrorDiagnostic ''Client error'' (''Failed to read stream: '' @ Error err)
           \<in> set (Diagnostics (fst (streamResource_Read cl stream_State sresp e)))
      \<and> HasError (Diagnostics (fst (streamResource_Read cl stream_State sresp e))))
    \<and> (\<forall>info. fst (Client_GetStream cl (ValueString (sm_Name (snd stream_State))) (fst e))
              = (info, None) \<longrightarrow>
        State (fst (streamResource_Read cl stream_State sresp e)) = Some (fromStreamInfo info)
      \<and> fromStreamInfo info =
        \<lparr>sm_Name = StringValue (sc_Name (si_Config info)),
       sm_Subjects = map StringValue (sc_Subjects (si_Config info)),
       sm_Storage = StringValue (FromStorageType (sc_Storage (si_Config info))),
       sm_NumReplicas = Int64Value (sc_Replicas (si_Config info)),
       sm_Retention = StringValue (FromRetentionPolicy (sc_Retention (si_Config info))),
       sm_Discard = StringValue (FromDiscardPolicy (sc_Discard (si_Config info))),
       sm_MaxMsgs = Int64Value (sc_MaxMsgs (si_Config info)),
       sm_MaxConsumers = Int64Value (sc_MaxConsumers (si_Config info)),
       sm_MaxBytes = Int64Value (sc_MaxBytes (si_Config info)),
       sm_MaxMsgsPerSubject = Int64Value (sc_MaxMsgsPerSubject (si_Config info)),
       sm_MaxMsgSize = Int64Value (scast (sc_MaxMsgSize (si_Config info))),
       sm_MaxAge = Int64Value (sc_MaxAge (si_Config info)),
       sm_DuplicateWindow = Int64Value (sc_Duplicates (si_Config info)),
       sm_AllowDirect = BoolValue (sc_AllowDirect (si_Config info))\<rparr>
      \<and> \<not> HasError (Diagnostics (fst (streamResource_Read cl stream_State sresp e)))))
   \<and> ((\<forall>info. fst (Client_GetConsumer cl (ValueString (cm_StreamName (snd consumer_State)))
                (ValueString (cm_Name (snd consumer_State))) (fst e))
              = (info, Some ErrNotFound) \<longrightarrow>
        State (fst (consumerResource_Read cl consumer_State cresp e)) = None
      \<and> WarningDiagnostic ''Resource not found''
           ''couldn't find the consumer, possibly deleted outside terraform''
           \<in> set (Diagnostics (fst (consumerResource_Read cl consumer_State cresp e)))
      \<and> \<not> HasError (Diagnostics (fst (consumerResource_Read cl consumer_State cresp e))))
    \<and> (\<forall>info err. fst (Client_GetConsumer cl (ValueString (cm_StreamName (snd consumer_State)))
                (ValueString (cm_Name (snd consumer_State))) (fst e))
              = (info, Some err) \<and> err \<noteq> ErrNotFound \<longrightarrow>
        State (fst (consumerResource_Read cl consumer_State cresp e)) = State cresp
      \<and> ErrorDiagnostic ''Client error'' (''Failed to read consumer: '' @ Error err)
           \<in> set (Diagnostics (fst (consumerResource_Read cl consumer_State cresp e)))
      \<and> HasError (Diagnostics (fst (consumerResource_Read cl consumer_State cresp e))))
    \<and> (\<forall>info. fst (Client_GetConsumer cl (ValueString (cm_StreamName (snd consumer_State)))
                (ValueString (cm_Name (snd consumer_State))) (fst e))
              = (info, None) \<longrightarrow>
        State (fst (consumerResource_Read cl consumer_State cresp e))
          = Some (fromConsumerInfo info)
      \<and> fromConsumerInfo info =
        \<lparr>cm_StreamName = StringValue (ci_Stream info),
       cm_Name = StringValue (ci_Name info),
       cm_Mode = StringValue
         (if cc_DeliverSubject (ci_Config info) = [] then ''pull'' else ''push''),
       cm_DeliverPolicy =
         StringValue (FromDeliverPolicy (cc_DeliverPolicy (ci_Config info))),
       cm_AckPolicy = StringValue (FromAckPolicy (cc_AckPolicy (ci_Config info))),
       cm_FilterSubjects = map StringValue (cc_FilterSubjects (ci_Config info)),
       cm_DeliverSubject = StringValue (cc_DeliverSubject (ci_Config info)),
       cm_DeliverGroup = StringValue (cc_DeliverGroup (ci_Config info))\<rparr>
      \<and> \<not> HasError (Diagnostics (fst (consumerResource_Read cl consumer_State cresp e)))))
   \<and> (\<forall>info err. fst (Client_CreateStream cl (toStreamConfig (snd stream_Plan)) (fst e))
              = (info, Some err) \<longrightarrow>
        HasError (Diagnostics (fst (streamResource_Create cl stream_Plan sresp e)))
      \<and> State (fst (streamResource_Create cl stream_Plan sresp e)) = State sresp)
   \<and> (\<forall>info err. fst (Client_UpdateStream cl (toStreamConfig (snd stream_Plan)) (fst e))
              = (info, Some err) \<longrightarrow>
        HasError (Diagnostics (fst (streamResource_Update cl stream_Plan stream_State sresp e)))
      \<and> State (fst (streamResource_Update cl stream_Plan stream_State sresp e)) = State sresp)
   \<and> (\<forall>err. fst (Client_DeleteStream cl (ValueString (sm_Name (snd stream_State))) (fst e))
              = Some err \<longrightarrow>
        HasError (Diagnostics (fst (streamResource_Delete cl stream_State sresp e)))
      \<and> State (fst (streamResource_Delete cl stream_State sresp e)) = State sresp)
   \<and> (\<forall>info err. fst (Client_CreateConsumer cl (ValueString (cm_StreamName (snd consumer_Plan)))
                (fst (toConsumerConfig (snd consumer_Plan))) (fst e)) = (info, Some err) \<longrightarrow>
        HasError (Diagnostics (fst (consumerResource_Create cl consumer_Plan cresp e)))
      \<and> State (fst (consumerResource_Create cl consumer_Plan cresp e)) = State cresp)
   \<and> (\<forall>info err. fst (Client_UpdateConsumer cl (ValueString (cm_StreamName (snd consumer_Plan)))
                (fst (toConsumerConfig (snd consumer_Plan))) (fst e)) = (info, Some err) \<longrightarrow>
        HasError (Diagnostics
          (fst (consumerResource_Update cl consumer_Plan consumer_State cresp e)))
      \<and> State (fst (consumerResource_Update cl consumer_Plan consumer_State cresp e))
          = State cresp)
   \<and> (\<forall>err. fst (Client_DeleteConsumer cl (ValueString (cm_StreamName (snd consumer_State)))
                (ValueString (cm_Name (snd consumer_State))) (fst e)) = Some err \<longrightarrow>
        HasError (Diagnostics (fst (consumerResource_Delete cl consumer_State cresp e)))
      \<and> State (fst (consumerResource_Delete cl consumer_State cresp e)) = State cresp)
   \<and> (\<forall>info err. fst (Client_GetStream cl (ValueString (sm_Name (snd stream_State))) (fst e))
              = (info, Some err) \<longrightarrow>
        HasError (Diagnostics (fst (streamDataSource_Read cl stream_State sresp e)))
      \<and> State (fst (streamDataSource_Read cl stream_State sresp e)) = State sresp)"
proof -
  note stream = stream_Read_outcomes[OF assms(1,3), of cl e]
  note consumer = consumer_Read_outcomes[OF assms(2,4), of cl e]
  have stream_create:
    "\<forall>info err. fst (Client_CreateStream cl (toStreamConfig (snd stream_Plan)) (fst e))
              = (info, Some err) \<longrightarrow>
        HasError (Diagnostics (fst (streamResource_Create cl stream_Plan sresp e)))
      \<and> State (fst (streamResource_Create cl stream_Plan sresp e)) = State sresp"
    by (intro allI impI) (rule stream_Create_propagates)
  have stream_update:
    "\<forall>info err. fst (Client_UpdateStream cl (toStreamConfig (snd stream_Plan)) (fst e))
              = (info, Some err) \<longrightarrow>
        HasError (Diagnostics (fst (streamResource_Update cl stream_Plan stream_State sresp e)))
      \<and> State (fst (streamResource_Update cl stream_Plan stream_State sresp e)) = State sresp"
    by (intro allI impI) (rule stream_Update_propagates)
  have stream_delete:
    "\<forall>err. fst (Client_DeleteStream cl (ValueString (sm_Name (snd stream_State))) (fst e))
              = Some err \<longrightarrow>
        HasError (Diagnostics (fst (streamResource_Delete cl stream_State sresp e)))
      \<and> State (fst (streamResource_Delete cl stream_State sresp e)) = State sresp"
    by (intro allI impI) (rule stream_Delete_propagates)
  have consumer_create:
    "\<forall>info err. fst (Client_CreateConsumer cl (ValueString (cm_StreamName (snd consumer_Plan)))
                (fst (toConsumerConfig (snd consumer_Plan))) (fst e)) = (info, Some err) \<longrightarrow>
        HasError (Diagnostics (fst (consumerResource_Create cl consumer_Plan cresp e)))
      \<and> State (fst (consumerResource_Create cl consumer_Plan cresp e)) = State cresp"
    by (intro allI impI) (rule consumer_Create_propagates)
  have consumer_update:
    "\<forall>info err. fst (Client_UpdateConsumer cl (ValueString (cm_StreamName (snd consumer_Plan)))
                (fst (toConsumerConfig (snd consumer_Plan))) (fst e)) = (info, Some err) \<longrightarrow>
        HasError (Diagnostics
          (fst (consumerResource_Update cl consumer_Plan consumer_State cresp e)))
      \<and> State (fst (consumerResource_Update cl consumer_Plan consumer_State cresp e))
          = State cresp"
    by (intro allI impI) (rule consumer_Update_propagates)
  have consumer_delete:
    "\<forall>err. fst (Client_DeleteConsumer cl (ValueString (cm_StreamName (snd consumer_State)))
                (ValueString (cm_Name (snd consumer_State))) (fst e)) = Some err \<longrightarrow>
        HasError (Diagnostics (fst (consumerResource_Delete cl consumer_State cresp e)))
      \<and> State (fst (consumerResource_Delete cl consumer_State cresp e)) = State cresp"
    by (intro allI impI) (rule consumer_Delete_propagates)
  have data_source:
    "\<forall>info err. fst (Client_GetStream cl (ValueString (sm_Name (snd stream_State))) (fst e))
              = (info, Some err) \<longrightarrow>
        HasError (Diagnostics (fst (streamDataSource_Read cl stream_State sresp e)))
      \<and> State (fst (streamDataSource_Read cl stream_State sresp e)) = State sresp"
    by (intro allI impI) (rule data_source_Read_propagates)
  show ?thesis
    by (rule conjI, rule stream, rule conjI, rule consumer, rule conjI, rule stream_create,
        rule conjI, rule stream_update, rule conjI, rule stream_delete,
        rule conjI, rule consumer_create, rule conjI, rule consumer_update,
        rule conjI, rule consumer_delete, rule data_source)
qed

theorem read_not_found_handling_witness:
  "State (fst (streamResource_Read (client_impl empty_server local_client)
       ([], orders_stream) (prior_response orders_stream) (initial_world, []))) = None
   \<and> \<not> HasError (Diagnostics (fst (streamResource_Read (client_impl empty_server local_client)
       ([], orders_stream) (prior_response orders_stream) (initial_world, []))))
   \<and> State (fst (consumerResource_Read (client_impl empty_server local_client)
       ([], new_order_consumer) (prior_response new_order_consumer) (initial_world, []))) = None
   \<and> State (fst (streamResource_Read (client_impl unreachable_server local_client)
       ([], orders_stream) (prior_response orders_stream) (initial_world, [])))
      = Some orders_stream
   \<and> HasError (Diagnostics (fst (streamResource_Read (client_impl unreachable_server local_client)
       ([], orders_stream) (prior_response orders_stream) (initial_world, []))))
   \<and> State (fst (consumerResource_Read (client_impl consumer_server local_client)
       ([], new_order_consumer) (prior_response (new_order_consumer\<lparr>cm_AckPolicy := StringValue ''none''\<rparr>))
       (initial_world, [])))
      = Some new_order_consumer"
proof -
  have from_all: "FromDeliverPolicy DeliverAllPolicy = ''all''"
    using deliver_round_trip
    by (simp add: ToDeliverPolicy_def mapFn_def deliverPolicy_def dom_deliverPolicy)
  have from_explicit: "FromAckPolicy AckExplicitPolicy = ''explicit''"
    using ack_round_trip
    by (simp add: ToAckPolicy_def mapFn_def ackPolicy_def dom_ackPolicy)
  have cresp': "\<not> HasError (Diagnostics
      (prior_response (new_order_consumer\<lparr>cm_AckPolicy := StringValue ''none''\<rparr>)))"
    by (simp add: prior_response_def HasError_single)
  have found: "fst (Client_GetConsumer (client_impl consumer_server local_client)
      (ValueString (cm_StreamName (snd ([], new_order_consumer))))
      (ValueString (cm_Name (snd ([], new_order_consumer)))) (fst (initial_world, [])))
    = (\<lparr>ci_Stream = ''orders'', ci_Name = ''new_order_consumer'',
         ci_Config = \<lparr>cc_Name = ''new_order_consumer'', cc_Durable = ''new_order_consumer'',
           cc_DeliverPolicy = DeliverAllPolicy, cc_AckPolicy = AckExplicitPolicy,
           cc_FilterSubjects = [''orders.created''], cc_DeliverSubject = [],
           cc_DeliverGroup = []\<rparr>\<rparr>, None)"
    by (simp add: client_impl_def GetConsumer_def library_call_defs consumer_server_def
        empty_server_def new_order_consumer_def)
  have sresp: "\<not> HasError (Diagnostics (prior_response orders_stream))"
    by (simp add: prior_response_def HasError_single)
  have cresp: "\<not> HasError (Diagnostics (prior_response new_order_consumer))"
    by (simp add: prior_response_def HasError_single)
  have sdec: "\<not> HasError (fst ([], orders_stream))"
    by (simp add: HasError_single)
  have cdec: "\<not> HasError (fst ([], new_order_consumer))"
    by (simp add: HasError_single)
  have missing_stream: "fst (Client_GetStream (client_impl empty_server local_client)
      (ValueString (sm_Name (snd ([], orders_stream)))) (fst (initial_world, [])))
    = (zero_StreamInfo, Some ErrNotFound)"
    by (simp add: client_impl_def GetStream_def library_call_defs empty_server_def)
  have missing_consumer: "fst (Client_GetConsumer (client_impl empty_server local_client)
      (ValueString (cm_StreamName (snd ([], new_order_consumer))))
      (ValueString (cm_Name (snd ([], new_order_consumer)))) (fst (initial_world, [])))
    = (zero_ConsumerInfo, Some ErrNotFound)"
    by (simp add: client_impl_def GetConsumer_def library_call_defs empty_server_def)
  have unreachable: "fst (Client_GetStream (client_impl unreachable_server local_client)
      (ValueString (sm_Name (snd ([], orders_stream)))) (fst (initial_world, [])))
    = (zero_StreamInfo, Some (Wrapf ''failed to connect to nats'' (LibError ''no servers'')))"
    by (simp add: client_impl_def GetStream_def library_call_defs unreachable_server_def
        empty_server_def)
  have fetched: "State (fst (consumerResource_Read (client_impl consumer_server local_client)
       ([], new_order_consumer) (prior_response (new_order_consumer\<lparr>cm_AckPolicy := StringValue ''none''\<rparr>))
       (initial_world, [])))
      = Some new_order_consumer"
    using found
      read_not_found_handling[where cl = "client_impl consumer_server local_client"
        and e = "(initial_world, [])", OF sresp cresp' sdec cdec]
    by (simp add: from_all from_explicit new_order_consumer_def)
  have others: "State (fst (streamResource_Read (client_impl empty_server local_client)
       ([], orders_stream) (prior_response orders_stream) (initial_world, []))) = None
   \<and> \<not> HasError (Diagnostics (fst (streamResource_Read (client_impl empty_server local_client)
       ([], orders_stream) (prior_response orders_stream) (initial_world, []))))
   \<and> State (fst (consumerResource_Read (client_impl empty_server local_client)
       ([], new_order_consumer) (prior_response new_order_consumer) (initial_world, []))) = None
   \<and> State (fst (streamResource_Read (client_impl unreachable_server local_client)
       ([], orders_stream) (prior_response orders_stream) (initial_world, [])))
      = Some orders_stream
   \<and> HasError (Diagnostics (fst (streamResource_Read (client_impl unreachable_server local_client)
       ([], orders_stream) (prior_response orders_stream) (initial_world, []))))"
    using missing_stream missing_consumer unreachable
      read_not_found_handling[where cl = "client_impl empty_server local_client"
        and e = "(initial_world, [])", OF sresp cresp sdec cdec]
      read_not_found_handling[where cl = "client_impl unreachable_server local_client"
        and e = "(initial_world, [])", OF sresp cresp sdec cdec]
    by (simp add: prior_response_def)
  from others fetched show ?thesis by simp
qed

subsection \<open>Importing a consumer\<close>

lemma strings_Split_not_empty: "strings_Split s sep \<noteq> []"
  by (induction s) (auto split: list.splits)

lemma strings_Split_without_separator: "sep \<notin> set s \<Longrightarrow> strings_Split s sep = [s]"
  by (induction s) auto

lemma strings_Split_with_separator: "sep \<in> set s \<Longrightarrow> 2 \<le> length (strings_Split s sep)"
proof (induction s)
  case Nil
  then show ?case by simp
next
  case (Cons x xs)
  show ?case
  proof (cases "x = sep")
    case True
    have "strings_Split xs sep \<noteq> []" by (rule strings_Split_not_empty)
    then have "1 \<le> length (strings_Split xs sep)" by (cases "strings_Split xs sep") simp_all
    with True show ?thesis by simp
  next
    case False
    with Cons.prems have "sep \<in> set xs" by simp
    then have "2 \<le> length (strings_Split xs sep)" by (rule Cons.IH)
    with False show ?thesis by (cases "strings_Split xs sep") simp_all
  qed
qed

text \<open>
  Claim C8 says that \<open>ImportState\<close> never reads token 0 or 1 of a list shorter than two
  elements, and that it is safe for an id without \<open>#\<close>. The code reports the invalid id
  but does not return, and then reads both tokens: on every id without \<open>#\<close> the split has
  one element and the read of token 1 panics. An id with a \<open>#\<close> gives at least two
  tokens, and both reads are in range.
\<close>

theorem ImportState_panics_without_separator:
  "(CHR ''#'' \<notin> set req_ID \<longrightarrow>
      consumerResource_ImportState req_ID resp = Inl (IndexOutOfRange 1 1))
   \<and> (CHR ''#'' \<in> set req_ID \<longrightarrow> (\<exists>r. consumerResource_ImportState req_ID resp = Inr r))"
proof (intro conjI impI)
  assume "CHR ''#'' \<notin> set req_ID"
  then have "strings_Split req_ID (CHR ''#'') = [req_ID]"
    by (rule strings_Split_without_separator)
  then show "consumerResource_ImportState req_ID resp = Inl (IndexOutOfRange 1 1)"
    by (simp add: consumerResource_ImportState_def Let_def go_index_def)
next
  assume "CHR ''#'' \<in> set req_ID"
  then have "2 \<le> length (strings_Split req_ID (CHR ''#''))"
    by (rule strings_Split_with_separator)
  then show "\<exists>r. consumerResource_ImportState req_ID resp = Inr r"
    by (auto simp add: consumerResource_ImportState_def Let_def go_index_def)
qed

theorem ImportState_panics_without_separator_witness:
  "consumerResource_ImportState ''new_order_consumer'' empty_import = Inl (IndexOutOfRange 1 1)
   \<and> (\<exists>r. consumerResource_ImportState ''orders#new_order_consumer'' empty_import = Inr r)"
  using ImportState_panics_without_separator[of "''new_order_consumer''" empty_import]
    ImportState_panics_without_separator[of "''orders#new_order_consumer''" empty_import]
  by simp

end
